theory Spec2Isabelle
  imports Complex_Main "HOL-Library.Log_Nat"
begin

section \<open>TimePRO MCP server: values of the source language\<close>

text \<open>
  The server is TypeScript. Its numbers are IEEE 754 binary64 values. A finite one is
  modelled by the rational it denotes, with one extra value for \<open>NaN\<close>; every
  arithmetic operation rounds its exact result to the nearest binary64 value, ties to
  even. The two zeros are one value. The infinities are left out: a result beyond the
  binary64 range stays the finite value that rounding with an unbounded exponent gives.
  A \<open>Num\<close> may hold any rational: the statements below that are about all numbers
  cover the binary64 values among them.
  A property or variable that may be \<open>undefined\<close> is an \<open>option\<close>,
  \<open>None\<close> being \<open>undefined\<close>. Values are taken to have the types the
  TypeScript source declares for them (a string field holds a string or is missing).
\<close>

datatype jsnum = Num rat | NaN

text \<open>The nearest integer, a tie going to the even one.\<close>

definition round_half_even :: "rat \<Rightarrow> int" where
  "round_half_even y =
     (let f = \<lfloor>y\<rfloor>; d = y - of_int f in
      if d < 1 / 2 then f
      else if 1 / 2 < d then f + 1
      else if even f then f else f + 1)"

text \<open>For \<open>y > 0\<close>, the \<open>e\<close> with \<open>2 ^ e \<le> y < 2 ^ (e + 1)\<close>.\<close>

definition exponent :: "rat \<Rightarrow> int" where
  "exponent y =
     (if 1 \<le> y then bitlen \<lfloor>y\<rfloor> - 1
      else (let k = bitlen \<lfloor>1 / y\<rfloor> - 1 in
            if 2 powi (- k) \<le> y then - k else - k - 1))"

text \<open>
  Rounding to binary64: 53 significant bits, so the unit in the last place of a value
  with exponent \<open>e\<close> is \<open>2 ^ (e - 52)\<close>; below the least normal exponent -1022 the
  unit stays \<open>2 ^ (- 1074)\<close>.
\<close>

definition round_double :: "rat \<Rightarrow> rat" where
  "round_double x =
     (if x = 0 then 0
      else (let e = max (exponent \<bar>x\<bar>) (- 1022);
                ulp = 2 powi (e - 52)
            in sgn x * of_int (round_half_even (\<bar>x\<bar> / ulp)) * ulp))"

fun js_add :: "jsnum \<Rightarrow> jsnum \<Rightarrow> jsnum" where
  "js_add (Num a) (Num b) = Num (round_double (a + b))"
| "js_add _ _ = NaN"

fun js_sub :: "jsnum \<Rightarrow> jsnum \<Rightarrow> jsnum" where
  "js_sub (Num a) (Num b) = Num (round_double (a - b))"
| "js_sub _ _ = NaN"

fun js_mul :: "jsnum \<Rightarrow> jsnum \<Rightarrow> jsnum" where
  "js_mul (Num a) (Num b) = Num (round_double (a * b))"
| "js_mul _ _ = NaN"

text \<open>
  The source divides by the literal 60 only. A zero divisor (an infinity or \<open>NaN\<close>
  in the source) is outside the model and is given \<open>NaN\<close>.
\<close>

fun js_div :: "jsnum \<Rightarrow> jsnum \<Rightarrow> jsnum" where
  "js_div (Num a) (Num b) = (if b = 0 then NaN else Num (round_double (a / b)))"
| "js_div _ _ = NaN"

text \<open>The literal \<open>0.1\<close> of the source: the binary64 value nearest to one tenth.\<close>

definition one_tenth :: jsnum where
  "one_tenth = Num (round_double (1 / 10))"

text \<open>\<open>a <= b\<close>: false as soon as one side is \<open>NaN\<close>.\<close>

fun js_le :: "jsnum \<Rightarrow> jsnum \<Rightarrow> bool" where
  "js_le (Num a) (Num b) = (a \<le> b)"
| "js_le _ _ = False"

text \<open>Truthiness: \<open>undefined\<close>, \<open>0\<close>, \<open>NaN\<close> and the empty string are falsy.\<close>

fun truthy_num :: "jsnum option \<Rightarrow> bool" where
  "truthy_num (Some (Num a)) = (a \<noteq> 0)"
| "truthy_num _ = False"

fun truthy_str :: "string option \<Rightarrow> bool" where
  "truthy_str (Some s) = (s \<noteq> [])"
| "truthy_str None = False"

text \<open>\<open>undefined\<close> used as a number is \<open>NaN\<close>.\<close>

fun to_number :: "jsnum option \<Rightarrow> jsnum" where
  "to_number (Some n) = n"
| "to_number None = NaN"

text \<open>\<open>a || b\<close> on optional strings and on numbers.\<close>

definition or_else :: "string option \<Rightarrow> string option \<Rightarrow> string option" where
  "or_else a b = (if truthy_str a then a else b)"

definition or_num :: "jsnum option \<Rightarrow> jsnum \<Rightarrow> jsnum" where
  "or_num a b = (if truthy_num a then to_number a else b)"

text \<open>\<open>s.split(c)\<close> for a one-character separator: never the empty list.\<close>

fun split_on :: "char \<Rightarrow> string \<Rightarrow> string list" where
  "split_on c [] = [[]]"
| "split_on c (x # xs) =
     (if x = c then [] # split_on c xs
      else (case split_on c xs of
              [] \<Rightarrow> [[x]]
            | y # ys \<Rightarrow> (x # y) # ys))"

text \<open>
  Array destructuring \<open>const [a, b] = xs\<close>: a position past the end is
  \<open>undefined\<close>, which the arithmetic that follows turns into \<open>NaN\<close>.
\<close>

definition elem :: "jsnum list \<Rightarrow> nat \<Rightarrow> jsnum" where
  "elem xs i = (if i < length xs then xs ! i else NaN)"

section \<open>The hours helper\<close>

record hours =
  hrs_total :: jsnum
  hrs_billable :: jsnum

text \<open>
  \<open>calculateHours(startTime, endTime, breakMinutes = 0)\<close>. The built-in
  \<open>Number\<close> (string to number) is the parameter \<open>Number\<close>; the default value of
  the third parameter applies when the argument is \<open>undefined\<close>.
\<close>

definition calculateHours ::
  "(string \<Rightarrow> jsnum) \<Rightarrow> string \<Rightarrow> string \<Rightarrow> jsnum option \<Rightarrow> hours" where
  "calculateHours Number startTime endTime breakArg =
     (let breakMinutes = (case breakArg of None \<Rightarrow> Num 0 | Some b \<Rightarrow> b);
          startParts = map Number (split_on CHR '':'' startTime);
          startH = elem startParts 0;
          startM = elem startParts 1;
          endParts = map Number (split_on CHR '':'' endTime);
          endH = elem endParts 0;
          endM = elem endParts 1;
          startMinutes = js_add (js_mul startH (Num 60)) startM;
          endMinutes = js_add (js_mul endH (Num 60)) endM;
          workedMinutes = js_sub (js_sub endMinutes startMinutes) breakMinutes;
          total = js_div workedMinutes (Num 60)
      in \<lparr>hrs_total = total, hrs_billable = total\<rparr>)"

text \<open>
  \<open>formatDateTime(date, time)\<close>: the time gets \<open>:00\<close> appended unless it has
  three colon-separated parts already.
\<close>

definition formatDateTime :: "string \<Rightarrow> string \<Rightarrow> string" where
  "formatDateTime date time =
     (let timeParts = split_on CHR '':'' time;
          formattedTime = (if length timeParts = 3 then time else time @ '':00'')
      in date @ ''T'' @ formattedTime)"

text \<open>
  A reading of \<open>Number\<close> on strings of decimal digits, where it agrees with the
  built-in; the empty string reads as 0 as in the source language. Every other string
  is given \<open>NaN\<close> here, so this instance is used on digit strings only.
\<close>

definition is_digit :: "char \<Rightarrow> bool" where
  "is_digit c = (48 \<le> (of_char c :: nat) \<and> (of_char c :: nat) \<le> 57)"

definition dec_value :: "string \<Rightarrow> nat" where
  "dec_value s = foldl (\<lambda>n c. 10 * n + ((of_char c :: nat) - 48)) 0 s"

definition Number_dec :: "string \<Rightarrow> jsnum" where
  "Number_dec s = (if list_all is_digit s then Num (of_nat (dec_value s)) else NaN)"

section \<open>Data exchanged with the remote service (types.ts)\<close>

text \<open>
  Only the fields the two handlers read or write are kept. Any field of a decoded
  response may be missing, so each one is optional; the object \<open>{}\<close> given
  for an empty body is the record whose fields are all \<open>None\<close>.
\<close>

record EmployeeReply =
  EmpID :: "string option"

record ClientRate =
  Rate :: "jsnum option"

record TimesheetDetails =
  TimesheetID :: "jsnum option"
  ClientID :: "string option"
  ClientName :: "string option"
  ProjectID :: "string option"
  CategoryID :: "string option"
  LocationID :: "string option"
  BillableID :: "string option"
  DateCreated :: "string option"
  StartTime :: "string option"
  EndTime :: "string option"
  TimeLess :: "jsnum option"
  TimeTotal :: "jsnum option"
  TimeBillable :: "jsnum option"
  SellPrice :: "jsnum option"
  SalesTaxPct :: "jsnum option"
  Note :: "string option"

definition empty_details :: TimesheetDetails where
  "empty_details =
     \<lparr>TimesheetID = None, ClientID = None, ClientName = None, ProjectID = None,
      CategoryID = None, LocationID = None, BillableID = None, DateCreated = None,
      StartTime = None, EndTime = None, TimeLess = None, TimeTotal = None,
      TimeBillable = None, SellPrice = None, SalesTaxPct = None, Note = None\<rparr>"

record TimesheetDto =
  dto_TimeID :: "jsnum option"
  dto_EmpID :: "string option"
  dto_ClientID :: "string option"
  dto_ProjectID :: "string option"
  dto_CategoryID :: "string option"
  dto_LocationID :: "string option"
  dto_BillableID :: "string option"
  dto_DateCreated :: string
  dto_TimeStart :: string
  dto_TimeEnd :: string
  dto_TimeLess :: jsnum
  dto_TimeTotal :: jsnum
  dto_TimeBillable :: jsnum
  dto_SellPrice :: "jsnum option"
  dto_SalesTaxPct :: jsnum
  dto_Notes :: "string option"

text \<open>
  The requests of \<open>TimeProClient\<close> that the two handlers issue, by endpoint and
  parameters instead of the URL text:
  \<open>GetEmployeeID\<close> is \<open>GET /api/Employees/GetEmployeeID\<close>,
  \<open>GetClientRate empId clientId\<close> is \<open>GET /api/Timesheets/GetClientRate\<close>,
  \<open>GetEditTimesheetsView id\<close> is \<open>GET /api/Timesheets/GetEditTimesheetsView\<close>,
  \<open>SaveTimesheet isEdit dto\<close> is \<open>POST /api/Timesheets/SaveTimesheet\<close>
  with the record as its body.
\<close>

datatype request =
    GetEmployeeID
  | GetClientRate "string option" string
  | GetEditTimesheetsView jsnum
  | SaveTimesheet bool TimesheetDto

record http_response =
  status :: nat
  statusText :: string
  body :: string

text \<open>
  What the program does not define itself is a parameter: the remote service
  (\<open>respond\<close>, which sees the requests made so far; \<open>Inl\<close> is a request that
  got no response at all), the built-ins \<open>Number\<close>, number-to-string conversion and
  \<open>JSON.parse\<close> (\<open>JSON_error\<close> gives the message of the exception it throws, the
  \<open>as_\<close> functions the parsed value at the type the source casts it to), and the
  message of the \<open>TypeError\<close> for a method call on \<open>undefined\<close>.
\<close>

record env =
  respond :: "request list \<Rightarrow> request \<Rightarrow> string + http_response"
  Number :: "string \<Rightarrow> jsnum"
  String_of :: "jsnum \<Rightarrow> string"
  JSON_error :: "string \<Rightarrow> string option"
  as_employee :: "string \<Rightarrow> EmployeeReply"
  as_rate :: "string \<Rightarrow> ClientRate"
  as_details :: "string \<Rightarrow> TimesheetDetails"
  TypeError_message :: "string \<Rightarrow> string"

datatype ErrorCode = InvalidParams | MethodNotFound

datatype js_error = McpError ErrorCode string | Error string | TypeError string

text \<open>
  The state: the client's \<open>employeeId\<close> field (\<open>None\<close> is \<open>null\<close>, the
  initial value) and the requests sent to the remote service so far.
\<close>

record world =
  employeeId :: "string option option"
  sent :: "request list"

section \<open>The HTTP client (timepro-client.ts)\<close>

definition ok :: "http_response \<Rightarrow> bool" where
  "ok r = (200 \<le> status r \<and> status r \<le> 299)"

text \<open>The message of the error thrown for a response that is not \<open>ok\<close>.\<close>

definition api_error :: "env \<Rightarrow> http_response \<Rightarrow> string" where
  "api_error E r =
     ''TimePRO API error ('' @ String_of E (Num (of_nat (status r))) @ ''): '' @
     (if body r \<noteq> [] then body r else statusText r)"

definition fetch ::
  "env \<Rightarrow> (string \<Rightarrow> 'a) \<Rightarrow> 'a \<Rightarrow> request \<Rightarrow> world \<Rightarrow> (js_error + 'a) \<times> world" where
  "fetch E as_T empty_object req w =
     (let w' = w\<lparr>sent := sent w @ [req]\<rparr> in
      case respond E (sent w) req of
        Inl failure \<Rightarrow> (Inl (Error failure), w')
      | Inr response \<Rightarrow>
          if \<not> ok response then (Inl (Error (api_error E response)), w')
          else if body response = [] then (Inr empty_object, w')
          else (case JSON_error E (body response) of
                  Some m \<Rightarrow> (Inl (Error m), w')
                | None \<Rightarrow> (Inr (as_T (body response)), w')))"

definition getEmployeeId :: "env \<Rightarrow> world \<Rightarrow> (js_error + string option) \<times> world" where
  "getEmployeeId E w =
     (case employeeId w of
        Some cached \<Rightarrow> (Inr cached, w)
      | None \<Rightarrow>
          (case fetch E (as_employee E) \<lparr>EmpID = None\<rparr> GetEmployeeID w of
             (Inl e, w') \<Rightarrow> (Inl e, w')
           | (Inr response, w') \<Rightarrow>
               (Inr (EmpID response), w'\<lparr>employeeId := Some (EmpID response)\<rparr>)))"

definition getClientRate :: "env \<Rightarrow> string \<Rightarrow> world \<Rightarrow> (js_error + ClientRate) \<times> world" where
  "getClientRate E clientId w =
     (case getEmployeeId E w of
        (Inl e, w') \<Rightarrow> (Inl e, w')
      | (Inr empId, w') \<Rightarrow>
          fetch E (as_rate E) \<lparr>Rate = None\<rparr> (GetClientRate empId clientId) w')"

definition getTimesheet :: "env \<Rightarrow> jsnum \<Rightarrow> world \<Rightarrow> (js_error + TimesheetDetails) \<times> world" where
  "getTimesheet E timesheetId w =
     fetch E (as_details E) empty_details (GetEditTimesheetsView timesheetId) w"

definition createTimesheet ::
  "env \<Rightarrow> TimesheetDto \<Rightarrow> world \<Rightarrow> (js_error + TimesheetDetails) \<times> world" where
  "createTimesheet E timesheet w =
     fetch E (as_details E) empty_details (SaveTimesheet False timesheet) w"

definition updateTimesheet :: "env \<Rightarrow> TimesheetDto \<Rightarrow> world \<Rightarrow> (js_error + unit) \<times> world" where
  "updateTimesheet E timesheet w =
     fetch E (\<lambda>text. ()) () (SaveTimesheet True timesheet) w"

section \<open>The tool handlers (server module, the variant that sends TimeStart and TimeEnd)\<close>

text \<open>
  The arguments of a tool call, at the types its input schema declares; a key that is
  absent (or a call without arguments) reads as \<open>undefined\<close>.
\<close>

record tool_args =
  arg_timesheet_id :: "jsnum option"
  arg_client_id :: "string option"
  arg_project_id :: "string option"
  arg_category_id :: "string option"
  arg_date :: "string option"
  arg_start_time :: "string option"
  arg_end_time :: "string option"
  arg_break_minutes :: "jsnum option"
  arg_location_id :: "string option"
  arg_billable_id :: "string option"
  arg_note :: "string option"

definition no_args :: tool_args where
  "no_args =
     \<lparr>arg_timesheet_id = None, arg_client_id = None, arg_project_id = None,
      arg_category_id = None, arg_date = None, arg_start_time = None,
      arg_end_time = None, arg_break_minutes = None, arg_location_id = None,
      arg_billable_id = None, arg_note = None\<rparr>"

text \<open>
  The text a handler returns, before \<open>JSON.stringify\<close>: the fields of the created
  record that the create handler reports (\<open>TimesheetID\<close>, \<open>ClientName\<close>,
  \<open>ProjectID\<close>, \<open>DateCreated\<close>, \<open>TimeBillable\<close>), the id of the updated
  record, or the message of a failure (\<open>success: false\<close>).
\<close>

datatype tool_text =
    CreateSuccess "jsnum option" "string option" "string option" "string option" "jsnum option"
  | UpdateSuccess jsnum
  | Failure string

record tool_result =
  content :: tool_text
  isError :: bool

definition required_message :: string where
  "required_message =
     ''client_id, project_id, category_id, date, start_time, end_time, and location_id are all required''"

text \<open>The message of the check \<open>billable <= 0\<close> of the create handler.\<close>

definition invalid_range_message :: "env \<Rightarrow> jsnum \<Rightarrow> string \<Rightarrow> string \<Rightarrow> jsnum \<Rightarrow> string" where
  "invalid_range_message E breakMinutes startTime endTime total_hours =
     ''Invalid time range: break_minutes ('' @ String_of E breakMinutes @
     '') exceeds or equals total work time. '' @
     ''Start: '' @ startTime @ '', End: '' @ endTime @
     '', Total hours: '' @ String_of E (js_add total_hours (js_div breakMinutes (Num 60))) @
     '', Break: '' @ String_of E (js_div breakMinutes (Num 60)) @ '' hours. '' @
     ''Billable hours must be positive.''"

text \<open>The object literal \<open>timesheet\<close> of the create handler.\<close>

definition create_dto ::
  "string option \<Rightarrow> string \<Rightarrow> string \<Rightarrow> string \<Rightarrow> string \<Rightarrow> string option \<Rightarrow>
   string \<Rightarrow> string \<Rightarrow> string \<Rightarrow> jsnum \<Rightarrow> hours \<Rightarrow> jsnum option \<Rightarrow> string option \<Rightarrow>
   TimesheetDto" where
  "create_dto empId clientId projectId categoryId locationId billableId
              date startTime endTime breakMinutes h sellPrice note =
     (let breakHours = js_div breakMinutes (Num 60) in
      \<lparr>dto_TimeID = None,
       dto_EmpID = empId,
       dto_ClientID = Some clientId,
       dto_ProjectID = Some projectId,
       dto_CategoryID = Some categoryId,
       dto_LocationID = Some locationId,
       dto_BillableID = billableId,
       dto_DateCreated = date,
       dto_TimeStart = formatDateTime date startTime,
       dto_TimeEnd = formatDateTime date endTime,
       dto_TimeLess = breakHours,
       dto_TimeTotal = js_add (hrs_total h) breakHours,
       dto_TimeBillable = hrs_billable h,
       dto_SellPrice = sellPrice,
       dto_SalesTaxPct = one_tenth,
       dto_Notes = note\<rparr>)"

text \<open>
  \<open>case "create_timesheet"\<close>. A thrown error is \<open>Inl\<close>; the world that is
  returned holds the requests sent up to that point.
\<close>

definition create_timesheet :: "env \<Rightarrow> tool_args \<Rightarrow> world \<Rightarrow> (js_error + tool_text) \<times> world" where
  "create_timesheet E args w =
     (let breakMinutes = or_num (arg_break_minutes args) (Num 0) in
      case (arg_client_id args, arg_project_id args, arg_category_id args, arg_date args,
            arg_start_time args, arg_end_time args, arg_location_id args) of
        (Some clientId, Some projectId, Some categoryId, Some date,
         Some startTime, Some endTime, Some locationId) \<Rightarrow>
          if clientId = [] \<or> projectId = [] \<or> categoryId = [] \<or> date = [] \<or>
             startTime = [] \<or> endTime = [] \<or> locationId = []
          then (Inl (McpError InvalidParams required_message), w)
          else
            (case getEmployeeId E w of
               (Inl e, w1) \<Rightarrow> (Inl e, w1)
             | (Inr empId, w1) \<Rightarrow>
                 (let h = calculateHours (Number E) startTime endTime (Some breakMinutes) in
                  if js_le (hrs_billable h) (Num 0)
                  then (Inl (McpError InvalidParams
                          (invalid_range_message E breakMinutes startTime endTime (hrs_total h))), w1)
                  else
                    (case getClientRate E clientId w1 of
                       (Inl e, w2) \<Rightarrow> (Inl e, w2)
                     | (Inr rateInfo, w2) \<Rightarrow>
                         (case createTimesheet E
                                 (create_dto empId clientId projectId categoryId locationId
                                    (arg_billable_id args) date startTime endTime breakMinutes h
                                    (Rate rateInfo) (arg_note args)) w2 of
                            (Inl e, w3) \<Rightarrow> (Inl e, w3)
                          | (Inr result, w3) \<Rightarrow>
                              (Inr (CreateSuccess (TimesheetID result) (ClientName result)
                                      (ProjectID result) (DateCreated result)
                                      (TimeBillable result)), w3)))))
      | _ \<Rightarrow> (Inl (McpError InvalidParams required_message), w))"

text \<open>
  The constants of the block \<open>// Apply updates\<close> of the update handler.
\<close>

record merged =
  m_clientId :: "string option"
  m_projectId :: "string option"
  m_categoryId :: "string option"
  m_date :: string
  m_startTime :: string
  m_endTime :: string
  m_breakMinutes :: "jsnum option"
  m_locationId :: "string option"
  m_billableId :: "string option"
  m_note :: "string option"

text \<open>
  \<open>(override as string) || existing.Field.method(...)\<close>: the method is called on
  the existing field only when the override is falsy, and throws a \<open>TypeError\<close> when
  that field is \<open>undefined\<close>.
\<close>

definition or_method ::
  "env \<Rightarrow> string option \<Rightarrow> string option \<Rightarrow> string \<Rightarrow> (string \<Rightarrow> string) \<Rightarrow> js_error + string" where
  "or_method E override field method_name method =
     (case override of
        Some s \<Rightarrow>
          if s \<noteq> [] then Inr s
          else (case field of
                  None \<Rightarrow> Inl (TypeError (TypeError_message E method_name))
                | Some v \<Rightarrow> Inr (method v))
      | None \<Rightarrow>
          (case field of
             None \<Rightarrow> Inl (TypeError (TypeError_message E method_name))
           | Some v \<Rightarrow> Inr (method v)))"

text \<open>
  The date falls back to \<open>existing.DateCreated.split('T')[0]\<close>, the head of a list
  that is never empty (\<open>split_on_nonempty\<close> below); the times fall back to
  \<open>substring(0, 5)\<close> of the existing ones.
\<close>

definition merge_overrides :: "env \<Rightarrow> tool_args \<Rightarrow> TimesheetDetails \<Rightarrow> js_error + merged" where
  "merge_overrides E args existing =
     (let clientId = or_else (arg_client_id args) (ClientID existing);
          projectId = or_else (arg_project_id args) (ProjectID existing);
          categoryId = or_else (arg_category_id args) (CategoryID existing)
      in
      case or_method E (arg_date args) (DateCreated existing) ''split''
             (\<lambda>v. hd (split_on CHR ''T'' v)) of
        Inl e \<Rightarrow> Inl e
      | Inr date \<Rightarrow>
      (case or_method E (arg_start_time args) (StartTime existing) ''substring'' (take 5) of
        Inl e \<Rightarrow> Inl e
      | Inr startTime \<Rightarrow>
      (case or_method E (arg_end_time args) (EndTime existing) ''substring'' (take 5) of
        Inl e \<Rightarrow> Inl e
      | Inr endTime \<Rightarrow>
          Inr \<lparr>m_clientId = clientId,
               m_projectId = projectId,
               m_categoryId = categoryId,
               m_date = date,
               m_startTime = startTime,
               m_endTime = endTime,
               m_breakMinutes =
                 (case arg_break_minutes args of
                    Some b \<Rightarrow> Some b
                  | None \<Rightarrow> TimeLess existing),
               m_locationId = or_else (arg_location_id args) (LocationID existing),
               m_billableId = or_else (arg_billable_id args) (BillableID existing),
               m_note =
                 (case arg_note args of
                    Some n \<Rightarrow> Some n
                  | None \<Rightarrow> Note existing)\<rparr>)))"

text \<open>The object literal \<open>timesheet\<close> of the update handler.\<close>

definition update_dto ::
  "env \<Rightarrow> jsnum \<Rightarrow> string option \<Rightarrow> TimesheetDetails \<Rightarrow> merged \<Rightarrow> TimesheetDto" where
  "update_dto E timesheetId empId existing m =
     (let h = calculateHours (Number E) (m_startTime m) (m_endTime m) (m_breakMinutes m);
          breakHours = js_div (to_number (m_breakMinutes m)) (Num 60)
      in
      \<lparr>dto_TimeID = Some timesheetId,
       dto_EmpID = empId,
       dto_ClientID = m_clientId m,
       dto_ProjectID = m_projectId m,
       dto_CategoryID = m_categoryId m,
       dto_LocationID = m_locationId m,
       dto_BillableID = m_billableId m,
       dto_DateCreated = m_date m,
       dto_TimeStart = formatDateTime (m_date m) (m_startTime m),
       dto_TimeEnd = formatDateTime (m_date m) (m_endTime m),
       dto_TimeLess = breakHours,
       dto_TimeTotal = js_add (hrs_total h) breakHours,
       dto_TimeBillable = hrs_billable h,
       dto_SellPrice = SellPrice existing,
       dto_SalesTaxPct = or_num (SalesTaxPct existing) one_tenth,
       dto_Notes = m_note m\<rparr>)"

text \<open>\<open>case "update_timesheet"\<close>.\<close>

definition update_timesheet :: "env \<Rightarrow> tool_args \<Rightarrow> world \<Rightarrow> (js_error + tool_text) \<times> world" where
  "update_timesheet E args w =
     (if \<not> truthy_num (arg_timesheet_id args)
      then (Inl (McpError InvalidParams ''timesheet_id is required''), w)
      else
        (let timesheetId = to_number (arg_timesheet_id args) in
         case getTimesheet E timesheetId w of
           (Inl e, w1) \<Rightarrow> (Inl e, w1)
         | (Inr existing, w1) \<Rightarrow>
             (case merge_overrides E args existing of
                Inl e \<Rightarrow> (Inl e, w1)
              | Inr m \<Rightarrow>
                  (case getEmployeeId E w1 of
                     (Inl e, w2) \<Rightarrow> (Inl e, w2)
                   | (Inr empId, w2) \<Rightarrow>
                       (case updateTimesheet E (update_dto E timesheetId empId existing m) w2 of
                          (Inl e, w3) \<Rightarrow> (Inl e, w3)
                        | (Inr u, w3) \<Rightarrow> (Inr (UpdateSuccess timesheetId), w3))))))"

text \<open>
  The call-tool handler around the two cases of its \<open>switch\<close> that are modelled
  (the other tools pass one request through and are left out): the \<open>catch\<close> block
  rethrows an \<open>McpError\<close> and turns every other error into a returned result
  with \<open>isError: true\<close>.
\<close>

datatype tool_name = CreateTimesheet | UpdateTimesheet

definition catch_block ::
  "(js_error + tool_text) \<times> world \<Rightarrow> (js_error + tool_result) \<times> world" where
  "catch_block r =
     (case r of
        (Inl (McpError c m), w) \<Rightarrow> (Inl (McpError c m), w)
      | (Inl (Error m), w) \<Rightarrow> (Inr \<lparr>content = Failure m, isError = True\<rparr>, w)
      | (Inl (TypeError m), w) \<Rightarrow> (Inr \<lparr>content = Failure m, isError = True\<rparr>, w)
      | (Inr t, w) \<Rightarrow> (Inr \<lparr>content = t, isError = False\<rparr>, w))"

definition call_tool ::
  "env \<Rightarrow> tool_name \<Rightarrow> tool_args \<Rightarrow> world \<Rightarrow> (js_error + tool_result) \<times> world" where
  "call_tool E name args w =
     catch_block
       (case name of
          CreateTimesheet \<Rightarrow> create_timesheet E args w
        | UpdateTimesheet \<Rightarrow> update_timesheet E args w)"

section \<open>A concrete remote service, for running the handlers on examples\<close>

text \<open>
  Number-to-string conversion on the values the examples print: \<open>NaN\<close> and the
  natural numbers, in decimal. Other values are printed as \<open>?\<close>.
\<close>

function show_nat :: "nat \<Rightarrow> string" where
  "show_nat n =
     (if n < 10 then [''0123456789'' ! n]
      else show_nat (n div 10) @ [''0123456789'' ! (n mod 10)])"
  by pat_completeness auto
termination
  by (relation "measure id") auto

declare show_nat.simps [simp del]

fun String_dec :: "jsnum \<Rightarrow> string" where
  "String_dec NaN = ''NaN''"
| "String_dec (Num q) =
     (if 0 \<le> q \<and> q = of_int \<lfloor>q\<rfloor> then show_nat (nat \<lfloor>q\<rfloor>) else ''?'')"

definition example_record :: TimesheetDetails where
  "example_record =
     \<lparr>TimesheetID = Some (Num 7), ClientID = Some ''SSW'', ClientName = Some ''SSW Pty'',
      ProjectID = Some ''PRJ1'', CategoryID = Some ''DEV'', LocationID = Some ''OFFICE'',
      BillableID = Some ''B'', DateCreated = Some ''2024-03-05T00:00:00'',
      StartTime = Some ''09:00:00'', EndTime = Some ''18:00:00'',
      TimeLess = Some (Num 60), TimeTotal = Some (Num 9), TimeBillable = Some (Num 8),
      SellPrice = Some (Num 250), SalesTaxPct = Some one_tenth,
      Note = Some ''design review''\<rparr>"

text \<open>
  The example service answers every request with status 200. The body texts are
  placeholders: what a body reads as is given by the \<open>as_\<close> functions of the
  environment below. A save that edits is answered with an empty body.
\<close>

definition example_respond :: "request list \<Rightarrow> request \<Rightarrow> string + http_response" where
  "example_respond hist req =
     (case req of
        GetEmployeeID \<Rightarrow> Inr \<lparr>status = 200, statusText = ''OK'', body = ''employee''\<rparr>
      | GetClientRate e c \<Rightarrow> Inr \<lparr>status = 200, statusText = ''OK'', body = ''rate''\<rparr>
      | GetEditTimesheetsView i \<Rightarrow> Inr \<lparr>status = 200, statusText = ''OK'', body = ''details''\<rparr>
      | SaveTimesheet isEdit dto \<Rightarrow>
          Inr \<lparr>status = 200, statusText = ''OK'',
               body = (if isEdit then [] else ''details'')\<rparr>)"

definition example_env :: env where
  "example_env =
     \<lparr>respond = example_respond,
      Number = Number_dec,
      String_of = String_dec,
      JSON_error = (\<lambda>text. None),
      as_employee = (\<lambda>text. \<lparr>EmpID = Some ''EMP1''\<rparr>),
      as_rate = (\<lambda>text. \<lparr>Rate = Some (Num 250)\<rparr>),
      as_details = (\<lambda>text. example_record),
      TypeError_message = (\<lambda>m. ''undefined has no method '' @ m)\<rparr>"

definition fresh_world :: world where
  "fresh_world = \<lparr>employeeId = None, sent = []\<rparr>"

definition create_args :: "string \<Rightarrow> string \<Rightarrow> jsnum \<Rightarrow> tool_args" where
  "create_args startTime endTime breakMinutes =
     no_args\<lparr>arg_client_id := Some ''SSW'', arg_project_id := Some ''PRJ1'',
             arg_category_id := Some ''DEV'', arg_date := Some ''2024-03-05'',
             arg_start_time := Some startTime, arg_end_time := Some endTime,
             arg_break_minutes := Some breakMinutes, arg_location_id := Some ''OFFICE''\<rparr>"

text \<open>
  A record as the service may hold it after its billable hours were set by hand: they
  are 7, while its clock times and break give 8.
\<close>

definition overridden_record :: TimesheetDetails where
  "overridden_record = example_record\<lparr>TimeBillable := Some (Num 7)\<rparr>"

text \<open>
  A record of 09:00 to 09:12 with a break of 10 minutes whose stored hours agree with its
  times and break: the total hours are the binary64 value nearest to \<open>12 / 60\<close>,
  which prints as 0.2, and the billable hours the one nearest to \<open>2 / 60\<close>.
\<close>

definition short_record :: TimesheetDetails where
  "short_record =
     example_record\<lparr>StartTime := Some ''09:00:00'', EndTime := Some ''09:12:00'',
                    TimeLess := Some (Num 10),
                    TimeTotal := Some (Num (round_double (12 / 60))),
                    TimeBillable := Some (Num (round_double (2 / 60)))\<rparr>"

text \<open>A service that rejects every save, and one that is unavailable.\<close>

definition rejecting_respond :: "request list \<Rightarrow> request \<Rightarrow> string + http_response" where
  "rejecting_respond hist req =
     (case req of
        SaveTimesheet isEdit dto \<Rightarrow>
          Inr \<lparr>status = 500, statusText = ''Internal Server Error'', body = ''boom''\<rparr>
      | _ \<Rightarrow> example_respond hist req)"

definition unavailable_respond :: "request list \<Rightarrow> request \<Rightarrow> string + http_response" where
  "unavailable_respond hist req =
     Inr \<lparr>status = 503, statusText = ''Service Unavailable'', body = []\<rparr>"

text \<open>The record that the create handler submits for 09:00 to 18:00 with a break of 60.\<close>

definition example_dto :: TimesheetDto where
  "example_dto =
     \<lparr>dto_TimeID = None, dto_EmpID = Some ''EMP1'', dto_ClientID = Some ''SSW'',
      dto_ProjectID = Some ''PRJ1'', dto_CategoryID = Some ''DEV'',
      dto_LocationID = Some ''OFFICE'', dto_BillableID = None,
      dto_DateCreated = ''2024-03-05'', dto_TimeStart = ''2024-03-05T09:00:00'',
      dto_TimeEnd = ''2024-03-05T18:00:00'', dto_TimeLess = Num 1, dto_TimeTotal = Num 9,
      dto_TimeBillable = Num 8, dto_SellPrice = Some (Num 250),
      dto_SalesTaxPct = one_tenth, dto_Notes = None\<rparr>"

section \<open>Notions for stating what a call sends\<close>

fun is_rate_lookup :: "request \<Rightarrow> bool" where
  "is_rate_lookup (GetClientRate e c) = True"
| "is_rate_lookup _ = False"

fun is_identity_lookup :: "request \<Rightarrow> bool" where
  "is_identity_lookup GetEmployeeID = True"
| "is_identity_lookup _ = False"

text \<open>A reply that is a response with a status outside 200..299.\<close>

definition rejected :: "string + http_response \<Rightarrow> bool" where
  "rejected reply = (case reply of Inl failure \<Rightarrow> False | Inr r \<Rightarrow> \<not> ok r)"

text \<open>
  The requests \<open>reqs\<close>, sent in this order after the requests \<open>hist\<close>: a request
  whose reply is rejected has no successor.
\<close>

fun stops_at_rejection :: "env \<Rightarrow> request list \<Rightarrow> request list \<Rightarrow> bool" where
  "stops_at_rejection E hist [] = True"
| "stops_at_rejection E hist (req # reqs) =
     ((rejected (respond E hist req) \<longrightarrow> reqs = []) \<and>
      stops_at_rejection E (hist @ [req]) reqs)"

text \<open>
  An operation started in \<open>w\<close> with outcome \<open>out\<close> sent requests that stop at a
  rejection, and if the last one was rejected the outcome is the error made from that
  response.
\<close>

definition traced :: "env \<Rightarrow> world \<Rightarrow> (js_error + 'a) \<times> world \<Rightarrow> bool" where
  "traced E w out =
     (\<exists>reqs. sent (snd out) = sent w @ reqs \<and>
             stops_at_rejection E (sent w) reqs \<and>
             (\<forall>r. reqs \<noteq> [] \<and> respond E (sent w @ butlast reqs) (last reqs) = Inr r \<longrightarrow>
                  ok r \<or> fst out = Inl (Error (api_error E r))))"

text \<open>
  An operation started in \<open>w\<close> with the employee id \<open>v\<close> cached ends with it
  still cached and has sent no request for it.
\<close>

definition cache_kept :: "string option \<Rightarrow> world \<Rightarrow> (js_error + 'a) \<times> world \<Rightarrow> bool" where
  "cache_kept v w out =
     (employeeId (snd out) = Some v \<and>
      filter is_identity_lookup (sent (snd out)) = filter is_identity_lookup (sent w))"

text \<open>
  The module holds one client, so the calls of a process share its state: the state
  after a sequence of tool calls, each started where the one before ended.
\<close>

fun run_calls :: "env \<Rightarrow> (tool_name \<times> tool_args) list \<Rightarrow> world \<Rightarrow> world" where
  "run_calls E [] w = w"
| "run_calls E ((name, args) # calls) w = run_calls E calls (snd (call_tool E name args w))"

section \<open>Rounding to binary64\<close>

lemma round_half_even_error: "\<bar>of_int (round_half_even y) - y\<bar> \<le> 1 / 2"
proof -
  have "of_int \<lfloor>y\<rfloor> \<le> y" "y < of_int \<lfloor>y\<rfloor> + 1" by linarith+
  then show ?thesis
    by (auto simp: round_half_even_def Let_def)
qed

lemma round_half_even_of_int [simp]: "round_half_even (of_int n) = n"
  by (simp add: round_half_even_def)

lemma round_half_even_nonneg: "0 \<le> y \<Longrightarrow> 0 \<le> round_half_even y"
  by (auto simp: round_half_even_def Let_def)

lemma floor_pos_bounds:
  fixes z :: rat
  assumes "1 \<le> z"
  shows "2 powi (bitlen \<lfloor>z\<rfloor> - 1) \<le> z \<and> z < 2 powi (bitlen \<lfloor>z\<rfloor>)" "1 \<le> bitlen \<lfloor>z\<rfloor>"
proof -
  let ?n = "\<lfloor>z\<rfloor>"
  have n: "0 < ?n" using assms by simp
  from bitlen_bounds [OF n]
  have lo: "2 ^ nat (bitlen ?n - 1) \<le> ?n" and hi: "?n < 2 ^ nat (bitlen ?n)" by simp_all
  have b1: "1 \<le> bitlen ?n"
    using n bitlen_eq_zero_iff [of ?n] bitlen_nonneg [of ?n] by (cases "bitlen ?n = 0") auto
  have "(2::rat) powi (bitlen ?n - 1) = of_int (2 ^ nat (bitlen ?n - 1))"
    using b1 by (simp add: power_int_def)
  also have "\<dots> \<le> of_int ?n" using lo by (simp only: of_int_le_iff)
  also have "\<dots> \<le> z" by simp
  finally have 1: "2 powi (bitlen ?n - 1) \<le> z" .
  have "?n + 1 \<le> 2 ^ nat (bitlen ?n)" using hi by simp
  then have "of_int (?n + 1) \<le> (of_int (2 ^ nat (bitlen ?n)) :: rat)"
    by (simp only: of_int_le_iff)
  moreover have "z < of_int (?n + 1)" by simp linarith
  moreover have "(of_int (2 ^ nat (bitlen ?n)) :: rat) = 2 powi (bitlen ?n)"
    using b1 by (simp add: power_int_def)
  ultimately have 2: "z < 2 powi (bitlen ?n)" by simp
  show "2 powi (bitlen \<lfloor>z\<rfloor> - 1) \<le> z \<and> z < 2 powi (bitlen \<lfloor>z\<rfloor>)" using 1 2 by simp
  show "1 \<le> bitlen \<lfloor>z\<rfloor>" by (rule b1)
qed

lemma exponent_bounds:
  assumes "0 < y"
  shows "2 powi (exponent y) \<le> y \<and> y < 2 powi (exponent y + 1)"
proof (cases "1 \<le> y")
  case True
  from floor_pos_bounds(1) [OF True] True show ?thesis
    by (simp add: exponent_def)
next
  case False
  let ?z = "1 / y"
  let ?k = "bitlen \<lfloor>?z\<rfloor> - 1"
  have z1: "1 \<le> ?z" using assms False by simp
  from floor_pos_bounds [OF z1]
  have lo: "2 powi ?k \<le> ?z" and hi: "?z < 2 powi (?k + 1)" and k0: "0 \<le> ?k" by simp_all
  have p: "(0::rat) < 2 powi ?k" "(0::rat) < 2 powi (?k + 1)" by simp_all
  have up: "y \<le> 2 powi (- ?k)"
  proof -
    have "2 powi ?k * y \<le> 1" using lo assms by (simp add: field_simps)
    then have "y \<le> 1 / 2 powi ?k" using p(1) by (simp add: field_simps)
    moreover have "(2::rat) powi (- ?k) = 1 / 2 powi ?k" by (rule power_int_minus_divide)
    ultimately show ?thesis by (simp only:)
  qed
  have dn: "2 powi (- ?k - 1) < y"
  proof -
    have "1 < 2 powi (?k + 1) * y" using hi assms by (simp add: field_simps)
    then have "1 / 2 powi (?k + 1) < y" using p(2) by (simp add: field_simps)
    moreover have "(2::rat) powi (- ?k - 1) = 1 / 2 powi (?k + 1)"
      using power_int_minus_divide [of "2::rat" "?k + 1"] by (simp add: algebra_simps)
    ultimately show ?thesis by (simp only:)
  qed
  show ?thesis
  proof (cases "2 powi (- ?k) \<le> y")
    case t: True
    have "(2::rat) powi (- ?k) < 2 powi (- ?k + 1)"
      by (rule power_int_strict_increasing) simp_all
    with t up False show ?thesis by (simp add: exponent_def Let_def)
  next
    case f: False
    have "- ?k - 1 + 1 = - ?k" by simp
    with f dn False show ?thesis by (simp add: exponent_def Let_def)
  qed
qed

lemma exponent_ge:
  assumes "2 powi n \<le> y"
  shows "n \<le> exponent y"
proof -
  have y: "0 < y" using assms by (rule less_le_trans [rotated]) simp
  from exponent_bounds [OF y] assms have "(2::rat) powi n < 2 powi (exponent y + 1)" by simp
  then have "n < exponent y + 1"
    by (metis linorder_not_less one_le_numeral power_int_increasing)
  then show ?thesis by simp
qed

lemma exponent_less:
  assumes "0 < y" "y < 2 powi n"
  shows "exponent y < n"
proof -
  from exponent_bounds [OF assms(1)] assms(2) have "(2::rat) powi (exponent y) < 2 powi n" by simp
  then show ?thesis
    by (metis linorder_not_less one_le_numeral power_int_increasing)
qed

lemma abs_scale:
  fixes u :: rat
  assumes "0 < u"
  shows "\<bar>a - b / u\<bar> * u = \<bar>a * u - b\<bar>"
proof -
  have "(a - b / u) * u = a * u - b" using assms by (simp add: left_diff_distrib)
  then have "\<bar>a * u - b\<bar> = \<bar>(a - b / u) * u\<bar>" by simp
  also have "\<dots> = \<bar>a - b / u\<bar> * \<bar>u\<bar>" by (rule abs_mult)
  finally show ?thesis using assms by simp
qed

lemma round_double_0 [simp]: "round_double 0 = 0"
  by (simp add: round_double_def)

lemma round_double_error:
  assumes "2 powi (- 1022) \<le> \<bar>x\<bar>"
  shows "\<bar>round_double x - x\<bar> \<le> \<bar>x\<bar> / 2 ^ 53"
proof -
  let ?y = "\<bar>x\<bar>"
  let ?e = "exponent ?y"
  let ?ulp = "(2::rat) powi (?e - 52)"
  have y: "0 < ?y" using assms by (rule less_le_trans [rotated]) simp
  then have x0: "x \<noteq> 0" by simp
  have e: "- 1022 \<le> ?e" using assms by (rule exponent_ge)
  have u: "0 < ?ulp" by simp
  let ?m = "round_half_even (?y / ?ulp)"
  have rd: "round_double x = sgn x * of_int ?m * ?ulp"
    using x0 e by (simp add: round_double_def Let_def max_def)
  have "\<bar>of_int ?m - ?y / ?ulp\<bar> \<le> 1 / 2" by (rule round_half_even_error)
  then have "\<bar>of_int ?m - ?y / ?ulp\<bar> * ?ulp \<le> 1 / 2 * ?ulp"
    using u by (simp only: mult_le_cancel_right_pos)
  moreover have "\<bar>of_int ?m - ?y / ?ulp\<bar> * ?ulp = \<bar>of_int ?m * ?ulp - ?y\<bar>"
    using u by (rule abs_scale)
  ultimately have 1: "\<bar>of_int ?m * ?ulp - ?y\<bar> \<le> ?ulp / 2" by simp
  have "?ulp = 2 powi ?e / 2 ^ 52"
    by (simp add: power_int_diff)
  moreover have "2 powi ?e \<le> ?y" using exponent_bounds [OF y] by simp
  ultimately have 2: "?ulp / 2 \<le> ?y / 2 ^ 53" by simp
  have "round_double x - x = sgn x * (of_int ?m * ?ulp - ?y)"
    by (simp add: rd right_diff_distrib mult.assoc sgn_mult_abs)
  then have "\<bar>round_double x - x\<bar> = \<bar>of_int ?m * ?ulp - ?y\<bar>"
    using x0 by (simp add: abs_mult abs_sgn_eq)
  with 1 2 show ?thesis by linarith
qed

lemma round_double_of_int:
  assumes "\<bar>n\<bar> < 2 ^ 53"
  shows "round_double (of_int n) = of_int n"
proof (cases "n = 0")
  case True
  then show ?thesis by simp
next
  case False
  let ?x = "of_int n :: rat"
  let ?y = "\<bar>?x\<bar>"
  let ?e = "exponent ?y"
  have "1 \<le> \<bar>n\<bar>" using False by simp
  then have "(of_int 1 :: rat) \<le> of_int \<bar>n\<bar>" by (simp only: of_int_le_iff)
  then have y1: "1 \<le> ?y" by simp
  have e0: "0 \<le> ?e" using exponent_ge [of 0 ?y] y1 by simp
  have "?y < 2 powi 53" using assms by (simp flip: of_int_abs)
  then have e53: "?e < 53" using y1 by (intro exponent_less) simp_all
  have ulp: "(2::rat) powi (?e - 52) = 1 / 2 ^ nat (52 - ?e)"
    using e53 by (simp add: power_int_def power_inverse field_simps)
  have q: "?y / (1 / 2 ^ nat (52 - ?e)) = of_int (\<bar>n\<bar> * 2 ^ nat (52 - ?e))"
    by simp
  have m: "round_half_even (?y / (1 / 2 ^ nat (52 - ?e))) = \<bar>n\<bar> * 2 ^ nat (52 - ?e)"
    unfolding q by (rule round_half_even_of_int)
  have "round_double ?x =
          sgn ?x * of_int (round_half_even (?y / 2 powi (?e - 52))) * 2 powi (?e - 52)"
    using False e0 by (simp add: round_double_def Let_def max_def)
  also have "\<dots> = sgn ?x * of_int (\<bar>n\<bar> * 2 ^ nat (52 - ?e)) * (1 / 2 ^ nat (52 - ?e))"
    by (simp only: ulp m)
  also have "\<dots> = sgn ?x * ?y" by simp
  also have "\<dots> = ?x" by (simp add: sgn_mult_abs)
  finally show ?thesis .
qed

lemma round_double_nonpos:
  assumes "x \<le> 0"
  shows "round_double x \<le> 0"
proof (cases "x = 0")
  case True
  then show ?thesis by simp
next
  case False
  with assms have s: "sgn x = - 1" by simp
  let ?ulp = "(2::rat) powi (max (exponent \<bar>x\<bar>) (- 1022) - 52)"
  have u: "0 < ?ulp" by simp
  have "0 \<le> \<bar>x\<bar> / ?ulp" using u by simp
  then have "0 \<le> round_half_even (\<bar>x\<bar> / ?ulp)" by (rule round_half_even_nonneg)
  then have "0 \<le> (of_int (round_half_even (\<bar>x\<bar> / ?ulp)) :: rat) * ?ulp"
    using u by simp
  then show ?thesis
    using False s by (simp add: round_double_def Let_def)
qed

lemma tiny_le: "(2::rat) powi (- 1022) \<le> 1 / 2 ^ 10"
proof -
  have "(2::rat) powi (- 1022) \<le> 2 powi (- 10)"
    by (rule power_int_increasing) simp_all
  also have "(2::rat) powi (- 10) = 1 / 2 ^ 10"
    using power_int_minus_divide [of "2::rat" 10] by simp
  finally show ?thesis .
qed

lemma round_double_near:
  assumes "x = 0 \<or> 1 / 2 ^ 10 \<le> \<bar>x\<bar>"
  shows "\<bar>round_double x - x\<bar> \<le> \<bar>x\<bar> / 2 ^ 53"
proof (cases "x = 0")
  case True
  then show ?thesis by simp
next
  case False
  with assms have "2 powi (- 1022) \<le> \<bar>x\<bar>" using tiny_le by linarith
  then show ?thesis by (rule round_double_error)
qed

lemma round_double_pos:
  assumes "1 / 2 ^ 10 \<le> x"
  shows "0 < round_double x"
proof -
  have x: "0 < x" using assms by (rule less_le_trans [rotated]) simp
  define t where "t = x / 2 ^ 53"
  have t: "t < x" using x by (simp add: t_def)
  have "\<bar>round_double x - x\<bar> \<le> \<bar>x\<bar> / 2 ^ 53"
    using assms x by (intro round_double_near) simp
  then have "\<bar>round_double x - x\<bar> \<le> t" using x by (simp only: t_def abs_of_pos)
  with t show ?thesis by linarith
qed

lemma round_double_numeral:
  "numeral k < (2::int) ^ 53 \<Longrightarrow> round_double (numeral k) = numeral k"
  using round_double_of_int [of "numeral k"] by simp

lemma round_double_1: "round_double 1 = 1"
  using round_double_of_int [of 1] by simp

lemmas round_simps = round_double_0 round_double_1 round_double_numeral

lemma truthy_one_tenth: "truthy_num (Some one_tenth)"
proof -
  have "0 < round_double (1 / 10)" by (rule round_double_pos) simp
  then show ?thesis by (simp add: one_tenth_def)
qed

lemma or_num_one_tenth: "or_num (Some one_tenth) one_tenth = one_tenth"
  by (simp add: or_num_def truthy_one_tenth)

lemma js_int_ops:
  "\<bar>a * b\<bar> < 2 ^ 53 \<Longrightarrow> js_mul (Num (of_int a)) (Num (of_int b)) = Num (of_int (a * b))"
  "\<bar>a + b\<bar> < 2 ^ 53 \<Longrightarrow> js_add (Num (of_int a)) (Num (of_int b)) = Num (of_int (a + b))"
  "\<bar>a - b\<bar> < 2 ^ 53 \<Longrightarrow> js_sub (Num (of_int a)) (Num (of_int b)) = Num (of_int (a - b))"
  by (simp_all add: round_double_of_int flip: of_int_mult of_int_add of_int_diff)

lemma minutes_exact:
  assumes "\<bar>h\<bar> \<le> 10 ^ 9" "\<bar>m\<bar> \<le> 10 ^ 9"
  shows "js_add (js_mul (Num (of_int h)) (Num 60)) (Num (of_int m)) = Num (of_int (h * 60 + m))"
proof -
  have "js_mul (Num (of_int h)) (Num (of_int 60)) = Num (of_int (h * 60))"
    using assms by (intro js_int_ops) simp
  moreover have "js_add (Num (of_int (h * 60))) (Num (of_int m)) = Num (of_int (h * 60 + m))"
    using assms by (intro js_int_ops) simp
  ultimately show ?thesis by simp
qed

lemma sixtieth_error:
  "\<bar>round_double (of_int k / 60) - of_int k / 60\<bar> \<le> \<bar>of_int k / 60\<bar> / 2 ^ 53"
proof (rule round_double_near, cases "k = 0")
  case True
  then show "(of_int k :: rat) / 60 = 0 \<or> 1 / 2 ^ 10 \<le> \<bar>(of_int k :: rat) / 60\<bar>" by simp
next
  case False
  then have "1 \<le> \<bar>k\<bar>" by simp
  then have "(of_int 1 :: rat) \<le> of_int \<bar>k\<bar>" by (simp only: of_int_le_iff)
  then have "1 \<le> \<bar>of_int k :: rat\<bar>" by simp
  then show "(of_int k :: rat) / 60 = 0 \<or> 1 / 2 ^ 10 \<le> \<bar>(of_int k :: rat) / 60\<bar>" by simp
qed

lemma sixtieth_close:
  assumes "\<bar>k\<bar> \<le> 10 ^ 12"
  shows "\<bar>round_double (of_int k / 60) - of_int k / 60\<bar> < 1 / 240"
proof -
  have "(of_int \<bar>k\<bar> :: rat) \<le> of_int (10 ^ 12)" using assms by (simp only: of_int_le_iff)
  then have "\<bar>of_int k :: rat\<bar> \<le> 10 ^ 12" by simp
  then have "\<bar>(of_int k :: rat) / 60\<bar> / 2 ^ 53 < 1 / 240" by simp
  with sixtieth_error [of k] show ?thesis by linarith
qed

lemma sixtieth_distinct:
  assumes "k \<noteq> l" "\<bar>k\<bar> \<le> 10 ^ 12" "\<bar>l\<bar> \<le> 10 ^ 12"
  shows "round_double (of_int k / 60) \<noteq> round_double (of_int l / 60)"
    and "round_double (of_int k / 60) \<noteq> of_int l / 60"
proof -
  have "1 \<le> \<bar>k - l\<bar>" using assms(1) by simp
  then have "(of_int 1 :: rat) \<le> of_int \<bar>k - l\<bar>" by (simp only: of_int_le_iff)
  then have "1 \<le> \<bar>(of_int k :: rat) - of_int l\<bar>" by simp
  then have d: "1 / 60 \<le> \<bar>(of_int k :: rat) / 60 - of_int l / 60\<bar>"
    by (simp add: diff_divide_distrib [symmetric])
  note a = sixtieth_close [OF assms(2)] and b = sixtieth_close [OF assms(3)]
  show "round_double (of_int k / 60) \<noteq> round_double (of_int l / 60)"
    using a b d by linarith
  show "round_double (of_int k / 60) \<noteq> of_int l / 60"
    using a d by linarith
qed

lemma sixtieth_not_whole:
  assumes "k \<noteq> 0" "\<bar>k\<bar> \<le> 10 ^ 12"
  shows "round_double (of_int k / 60) \<noteq> of_int k"
proof -
  have "1 \<le> \<bar>k\<bar>" using assms(1) by simp
  then have "(of_int 1 :: rat) \<le> of_int \<bar>k\<bar>" by (simp only: of_int_le_iff)
  then have k: "1 \<le> \<bar>of_int k :: rat\<bar>" by simp
  have c: "\<bar>round_double (of_int k / 60) - of_int k / 60\<bar> < 1 / 240"
    using assms(2) by (rule sixtieth_close)
  show ?thesis
  proof
    assume "round_double (of_int k / 60) = of_int k"
    with c have "\<bar>(of_int k :: rat) - of_int k / 60\<bar> < 1 / 240" by simp
    with k show False by linarith
  qed
qed

section \<open>Strings, the hours helper and the client\<close>

lemma split_on_no_sep: "c \<notin> set s \<Longrightarrow> split_on c s = [s]"
  by (induction s) auto

lemma split_on_nonempty: "split_on c s \<noteq> []"
  by (induction s) (auto split: list.splits)

lemma split_on_append:
  "c \<notin> set s \<Longrightarrow> split_on c (s @ c # t) = s # split_on c t"
  by (induction s) (auto split: list.splits)

lemma split_on_clock:
  "CHR '':'' \<notin> set h \<Longrightarrow> CHR '':'' \<notin> set m \<Longrightarrow>
   split_on CHR '':'' (h @ CHR '':'' # m) = [h, m]"
  by (simp add: split_on_append split_on_no_sep)

lemma calc_ops:
  assumes "CHR '':'' \<notin> set sh" "CHR '':'' \<notin> set sm" "CHR '':'' \<notin> set eh" "CHR '':'' \<notin> set em"
    and "N sh = Num a" "N sm = Num b" "N eh = Num c" "N em = Num d"
  shows "calculateHours N (sh @ CHR '':'' # sm) (eh @ CHR '':'' # em) (Some br) =
     \<lparr>hrs_total =
        js_div (js_sub (js_sub (js_add (js_mul (Num c) (Num 60)) (Num d))
                         (js_add (js_mul (Num a) (Num 60)) (Num b))) br) (Num 60),
      hrs_billable =
        js_div (js_sub (js_sub (js_add (js_mul (Num c) (Num 60)) (Num d))
                         (js_add (js_mul (Num a) (Num 60)) (Num b))) br) (Num 60)\<rparr>"
  using assms
  by (simp add: calculateHours_def split_on_clock elem_def Let_def
           del: js_add.simps js_sub.simps js_mul.simps js_div.simps)

lemma calc_parsed_break:
  assumes "CHR '':'' \<notin> set sh" "CHR '':'' \<notin> set sm" "CHR '':'' \<notin> set eh" "CHR '':'' \<notin> set em"
    and "N sh = Num (of_int a)" "N sm = Num (of_int b)"
    and "N eh = Num (of_int c)" "N em = Num (of_int d)"
    and "\<bar>a\<bar> \<le> 10 ^ 9" "\<bar>b\<bar> \<le> 10 ^ 9" "\<bar>c\<bar> \<le> 10 ^ 9" "\<bar>d\<bar> \<le> 10 ^ 9"
  shows "calculateHours N (sh @ CHR '':'' # sm) (eh @ CHR '':'' # em) (Some (Num br)) =
     \<lparr>hrs_total =
        Num (round_double (round_double (of_int ((c * 60 + d) - (a * 60 + b)) - br) / 60)),
      hrs_billable =
        Num (round_double (round_double (of_int ((c * 60 + d) - (a * 60 + b)) - br) / 60))\<rparr>"
proof -
  have s: "js_add (js_mul (Num (of_int a)) (Num 60)) (Num (of_int b)) = Num (of_int (a * 60 + b))"
    using assms(9,10) by (rule minutes_exact)
  have e: "js_add (js_mul (Num (of_int c)) (Num 60)) (Num (of_int d)) = Num (of_int (c * 60 + d))"
    using assms(11,12) by (rule minutes_exact)
  have d: "js_sub (Num (of_int (c * 60 + d))) (Num (of_int (a * 60 + b))) =
           Num (of_int ((c * 60 + d) - (a * 60 + b)))"
    using assms(9-12) by (intro js_int_ops) simp
  have "calculateHours N (sh @ CHR '':'' # sm) (eh @ CHR '':'' # em) (Some (Num br)) =
     \<lparr>hrs_total =
        js_div (js_sub (js_sub (js_add (js_mul (Num (of_int c)) (Num 60)) (Num (of_int d)))
                         (js_add (js_mul (Num (of_int a)) (Num 60)) (Num (of_int b))))
                  (Num br)) (Num 60),
      hrs_billable =
        js_div (js_sub (js_sub (js_add (js_mul (Num (of_int c)) (Num 60)) (Num (of_int d)))
                         (js_add (js_mul (Num (of_int a)) (Num 60)) (Num (of_int b))))
                  (Num br)) (Num 60)\<rparr>"
    using assms(1-8)
    by (simp add: calculateHours_def split_on_clock elem_def Let_def
             del: js_add.simps js_sub.simps js_mul.simps js_div.simps)
  also have "\<dots> =
     \<lparr>hrs_total =
        Num (round_double (round_double (of_int ((c * 60 + d) - (a * 60 + b)) - br) / 60)),
      hrs_billable =
        Num (round_double (round_double (of_int ((c * 60 + d) - (a * 60 + b)) - br) / 60))\<rparr>"
    unfolding s e d by simp
  finally show ?thesis .
qed

lemma calc_parsed:
  assumes "CHR '':'' \<notin> set sh" "CHR '':'' \<notin> set sm" "CHR '':'' \<notin> set eh" "CHR '':'' \<notin> set em"
    and "N sh = Num (of_int a)" "N sm = Num (of_int b)"
    and "N eh = Num (of_int c)" "N em = Num (of_int d)"
    and "\<bar>a\<bar> \<le> 10 ^ 9" "\<bar>b\<bar> \<le> 10 ^ 9" "\<bar>c\<bar> \<le> 10 ^ 9" "\<bar>d\<bar> \<le> 10 ^ 9" "\<bar>br\<bar> \<le> 10 ^ 12"
  shows "calculateHours N (sh @ CHR '':'' # sm) (eh @ CHR '':'' # em) (Some (Num (of_int br))) =
     \<lparr>hrs_total = Num (round_double (of_int ((c * 60 + d) - (a * 60 + b) - br) / 60)),
      hrs_billable = Num (round_double (of_int ((c * 60 + d) - (a * 60 + b) - br) / 60))\<rparr>"
proof -
  have "\<bar>(c * 60 + d) - (a * 60 + b) - br\<bar> < 2 ^ 53"
    using assms(9-13) by simp
  then have "round_double (of_int ((c * 60 + d) - (a * 60 + b) - br)) =
             of_int ((c * 60 + d) - (a * 60 + b) - br)"
    by (rule round_double_of_int)
  then have "round_double (of_int ((c * 60 + d) - (a * 60 + b)) - of_int br) =
             of_int ((c * 60 + d) - (a * 60 + b) - br)"
    by simp
  with calc_parsed_break [OF assms(1-12), of "of_int br"] show ?thesis by simp
qed

lemma fetch_world: "snd (fetch E v e req w) = w\<lparr>sent := sent w @ [req]\<rparr>"
  by (simp add: fetch_def Let_def split: sum.splits option.splits)

lemma snd_propagate:
  "snd (case p of (Inl e, w) \<Rightarrow> (Inl e, w) | (Inr r, w) \<Rightarrow> (Inr (f r), w)) = snd p"
  by (cases p) (auto split: sum.splits)

lemma getEmployeeId_sent:
  "getEmployeeId E w = (r, w1) \<Longrightarrow> sent w1 = sent w \<or> sent w1 = sent w @ [GetEmployeeID]"
  by (auto simp: getEmployeeId_def fetch_def Let_def
           split: option.splits sum.splits prod.splits if_splits)

lemma or_method_Some:
  "field = Some v \<Longrightarrow>
   or_method E override field name f =
     Inr (case override of Some s \<Rightarrow> if s \<noteq> [] then s else f v | None \<Rightarrow> f v)"
  by (simp add: or_method_def split: option.splits)

lemma merge_overrides_Inr:
  assumes "DateCreated existing = Some d" "StartTime existing = Some st" "EndTime existing = Some et"
  shows "merge_overrides E args existing =
     Inr \<lparr>m_clientId = or_else (arg_client_id args) (ClientID existing),
          m_projectId = or_else (arg_project_id args) (ProjectID existing),
          m_categoryId = or_else (arg_category_id args) (CategoryID existing),
          m_date = (case arg_date args of
                      Some s \<Rightarrow> if s \<noteq> [] then s else hd (split_on CHR ''T'' d)
                    | None \<Rightarrow> hd (split_on CHR ''T'' d)),
          m_startTime = (case arg_start_time args of
                      Some s \<Rightarrow> if s \<noteq> [] then s else take 5 st
                    | None \<Rightarrow> take 5 st),
          m_endTime = (case arg_end_time args of
                      Some s \<Rightarrow> if s \<noteq> [] then s else take 5 et
                    | None \<Rightarrow> take 5 et),
          m_breakMinutes = (case arg_break_minutes args of
                      Some b \<Rightarrow> Some b
                    | None \<Rightarrow> TimeLess existing),
          m_locationId = or_else (arg_location_id args) (LocationID existing),
          m_billableId = or_else (arg_billable_id args) (BillableID existing),
          m_note = (case arg_note args of Some n \<Rightarrow> Some n | None \<Rightarrow> Note existing)\<rparr>"
  using assms by (simp add: merge_overrides_def or_method_Some Let_def)

lemma update_timesheet_sends:
  assumes "arg_timesheet_id args = Some (Num t)" "t \<noteq> 0"
    and "getTimesheet E (Num t) w = (Inr existing, w')"
    and "merge_overrides E args existing = Inr m"
    and "getEmployeeId E w' = (Inr empId, w'')"
  shows "sent (snd (update_timesheet E args w)) =
           sent w'' @ [SaveTimesheet True (update_dto E (Num t) empId existing m)]"
  using assms
  by (simp add: update_timesheet_def updateTimesheet_def fetch_world snd_propagate Let_def)

lemma getEmployeeId_caches:
  "getEmployeeId E w = (Inr v, w') \<Longrightarrow> employeeId w' = Some v"
  by (auto simp: getEmployeeId_def split: option.splits sum.splits prod.splits)

lemma update_timesheet_submits:
  assumes "arg_timesheet_id args = Some (Num t)" "t \<noteq> 0"
    and "getTimesheet E (Num t) w = (Inr existing, w')"
    and "DateCreated existing = Some d" "StartTime existing = Some st" "EndTime existing = Some et"
    and "getEmployeeId E w' = (Inr empId, w'')"
  obtains m where "merge_overrides E args existing = Inr m"
    and "sent (snd (update_timesheet E args w)) =
           sent w'' @ [SaveTimesheet True (update_dto E (Num t) empId existing m)]"
proof -
  from merge_overrides_Inr [OF assms(4-6), of E args]
  obtain m where m: "merge_overrides E args existing = Inr m" by blast
  from update_timesheet_sends [OF assms(1-3) m assms(7)] m that
  show thesis by blast
qed

lemma merged_fields:
  assumes "merge_overrides E args existing = Inr m"
    and "DateCreated existing = Some d" "StartTime existing = Some st" "EndTime existing = Some et"
  shows "m_clientId m = or_else (arg_client_id args) (ClientID existing)"
    and "m_projectId m = or_else (arg_project_id args) (ProjectID existing)"
    and "m_categoryId m = or_else (arg_category_id args) (CategoryID existing)"
    and "m_locationId m = or_else (arg_location_id args) (LocationID existing)"
    and "m_billableId m = or_else (arg_billable_id args) (BillableID existing)"
    and "m_date m = (case arg_date args of
                      Some s \<Rightarrow> if s \<noteq> [] then s else hd (split_on CHR ''T'' d)
                    | None \<Rightarrow> hd (split_on CHR ''T'' d))"
    and "m_startTime m = (case arg_start_time args of
                      Some s \<Rightarrow> if s \<noteq> [] then s else take 5 st
                    | None \<Rightarrow> take 5 st)"
    and "m_endTime m = (case arg_end_time args of
                      Some s \<Rightarrow> if s \<noteq> [] then s else take 5 et
                    | None \<Rightarrow> take 5 et)"
    and "m_breakMinutes m = (case arg_break_minutes args of
                      Some b \<Rightarrow> Some b
                    | None \<Rightarrow> TimeLess existing)"
    and "m_note m = (case arg_note args of Some n \<Rightarrow> Some n | None \<Rightarrow> Note existing)"
  using assms(1) merge_overrides_Inr [OF assms(2-4), of E args] by auto

lemma fetch_no_rate:
  "fetch E v e req w = (r, w1) \<Longrightarrow> \<not> is_rate_lookup req \<Longrightarrow>
   filter is_rate_lookup (sent w1) = filter is_rate_lookup (sent w)"
  using fetch_world [of E v e req w] by simp

lemma getEmployeeId_no_rate:
  "getEmployeeId E w = (r, w1) \<Longrightarrow>
   filter is_rate_lookup (sent w1) = filter is_rate_lookup (sent w)"
  using getEmployeeId_sent [of E w r w1] by auto

lemma update_timesheet_no_rate:
  "filter is_rate_lookup (sent (snd (update_timesheet E args w))) =
   filter is_rate_lookup (sent w)"
proof (cases "truthy_num (arg_timesheet_id args)")
  case False
  then show ?thesis by (simp add: update_timesheet_def)
next
  case True
  obtain r1 w1 where g: "getTimesheet E (to_number (arg_timesheet_id args)) w = (r1, w1)"
    by (cases "getTimesheet E (to_number (arg_timesheet_id args)) w")
  have f1: "filter is_rate_lookup (sent w1) = filter is_rate_lookup (sent w)"
    using g unfolding getTimesheet_def by (rule fetch_no_rate) simp
  show ?thesis
  proof (cases r1)
    case (Inl e)
    then show ?thesis using True g f1 by (simp add: update_timesheet_def Let_def)
  next
    case (Inr existing)
    show ?thesis
    proof (cases "merge_overrides E args existing")
      case (Inl e)
      then show ?thesis using True g f1 Inr by (simp add: update_timesheet_def Let_def)
    next
      case m: (Inr m)
      obtain r2 w2 where e: "getEmployeeId E w1 = (r2, w2)"
        by (cases "getEmployeeId E w1")
      have f2: "filter is_rate_lookup (sent w2) = filter is_rate_lookup (sent w1)"
        using e by (rule getEmployeeId_no_rate)
      show ?thesis
      proof (cases r2)
        case (Inl e')
        then show ?thesis
          using True g f1 f2 Inr m e by (simp add: update_timesheet_def Let_def)
      next
        case empId: (Inr empId)
        then show ?thesis
          using True g f1 f2 Inr m e
          by (simp add: update_timesheet_def Let_def updateTimesheet_def snd_propagate fetch_world)
      qed
    qed
  qed
qed

lemma getClientRate_cached:
  assumes "employeeId w = Some empId"
  shows "sent (snd (getClientRate E clientId w)) = sent w @ [GetClientRate empId clientId]"
  using assms by (simp add: getClientRate_def getEmployeeId_def fetch_world)

section \<open>Runs of the example service\<close>

lemmas example_defs =
  example_env_def example_respond_def example_record_def fresh_world_def create_args_def
  no_args_def

lemma example_Number:
  "Number example_env ''09'' = Num 9" "Number example_env ''00'' = Num 0"
  "Number example_env ''10'' = Num 10" "Number example_env ''18'' = Num 18"
  by (simp_all add: example_env_def Number_dec_def is_digit_def dec_value_def)

lemma example_getEmployeeId:
  "getEmployeeId example_env fresh_world =
     (Inr (Some ''EMP1''), \<lparr>employeeId = Some (Some ''EMP1''), sent = [GetEmployeeID]\<rparr>)"
  by (simp add: example_defs getEmployeeId_def fetch_def ok_def Let_def)

lemma example_getClientRate:
  "getClientRate example_env ''SSW''
     \<lparr>employeeId = Some (Some ''EMP1''), sent = [GetEmployeeID]\<rparr> =
     (Inr \<lparr>Rate = Some (Num 250)\<rparr>,
      \<lparr>employeeId = Some (Some ''EMP1''),
       sent = [GetEmployeeID, GetClientRate (Some ''EMP1'') ''SSW'']\<rparr>)"
  by (simp add: example_defs getClientRate_def getEmployeeId_def fetch_def ok_def Let_def)

lemmas run_defs =
  create_timesheet_def update_timesheet_def getEmployeeId_def getClientRate_def
  getTimesheet_def createTimesheet_def updateTimesheet_def fetch_def ok_def api_error_def
  merge_overrides_def or_method_def or_else_def or_num_def update_dto_def create_dto_def
  calculateHours_def formatDateTime_def elem_def Number_dec_def is_digit_def dec_value_def
  invalid_range_message_def empty_details_def Let_def round_simps truthy_one_tenth

lemma example_getTimesheet:
  "getTimesheet example_env (Num 7) fresh_world =
     (Inr example_record, \<lparr>employeeId = None, sent = [GetEditTimesheetsView (Num 7)]\<rparr>)"
  by (simp add: example_env_def example_respond_def fresh_world_def getTimesheet_def fetch_def
        ok_def Let_def)

lemma example_getEmployeeId_after:
  "getEmployeeId example_env \<lparr>employeeId = None, sent = [GetEditTimesheetsView (Num 7)]\<rparr> =
     (Inr (Some ''EMP1''),
      \<lparr>employeeId = Some (Some ''EMP1''),
       sent = [GetEditTimesheetsView (Num 7), GetEmployeeID]\<rparr>)"
  by (simp add: example_env_def example_respond_def getEmployeeId_def fetch_def ok_def Let_def)

lemma example_record_fields:
  "DateCreated example_record = Some ''2024-03-05T00:00:00''"
  "StartTime example_record = Some ''09:00:00''"
  "EndTime example_record = Some ''18:00:00''"
  "Note example_record = Some ''design review''"
  "TimeLess example_record = Some (Num 60)"
  "TimeBillable example_record = Some (Num 8)"
  "TimeTotal example_record = Some (Num 9)"
  "SellPrice example_record = Some (Num 250)"
  "ClientID example_record = Some ''SSW''"
  "ProjectID example_record = Some ''PRJ1''"
  by (simp_all add: example_record_def)

text \<open>
  The binary64 values nearest to \<open>1 / 5\<close>, \<open>1 / 30\<close> and \<open>1 / 6\<close>, and the
  rounded sum of the last two: it prints as 0.19999999999999998, one unit in the last
  place below the first, which prints as 0.2.
\<close>

lemma double_fifth: "round_double (1 / 5) = 3602879701896397 / 18014398509481984"
  by code_simp

lemma double_thirtieth: "round_double (1 / 30) = 4803839602528529 / 144115188075855872"
  by code_simp

lemma double_sixth: "round_double (1 / 6) = 6004799503160661 / 36028797018963968"
  by code_simp

lemma double_short_total:
  "round_double (28823037615171173 / 144115188075855872) =
     7205759403792793 / 36028797018963968"
  by code_simp

lemmas short_doubles = double_fifth double_thirtieth double_sixth double_short_total

lemma unavailable_getEmployeeId:
  "getEmployeeId (example_env\<lparr>respond := unavailable_respond\<rparr>) fresh_world =
     (Inl (Error ''TimePRO API error (503): Service Unavailable''),
      \<lparr>employeeId = None, sent = [GetEmployeeID]\<rparr>)"
  by (simp add: example_env_def unavailable_respond_def fresh_world_def getEmployeeId_def
        fetch_def ok_def api_error_def Let_def show_nat.simps)

section \<open>The hours helper and the create handler\<close>

text \<open>
  Claim C10. For every start time, end time and break, the two components that
  \<open>calculateHours\<close> returns are equal. When the two parts of each clock time read as
  numbers, both are \<open>(end - start - break) / 60\<close> as the source computes it, each
  operation rounded to binary64. For whole hours, minutes and break of at most \<open>10 ^ 9\<close>
  in size, only the division rounds: both are the binary64 value nearest to the net time
  \<open>(end - start - break) / 60\<close>, within one part in \<open>2 ^ 53\<close> of it; with a break
  that is not zero this is not the gross time \<open>(end - start) / 60\<close>, rounded or not,
  which the helper never returns. The helper has the same text in each variant of the
  server module.
\<close>

theorem calculateHours_total_equals_billable:
  "hrs_total (calculateHours N startTime endTime breakArg) =
     hrs_billable (calculateHours N startTime endTime breakArg) \<and>
   (CHR '':'' \<notin> set sh \<and> CHR '':'' \<notin> set sm \<and> CHR '':'' \<notin> set eh \<and> CHR '':'' \<notin> set em \<and>
    N sh = Num a \<and> N sm = Num b \<and> N eh = Num c \<and> N em = Num d \<longrightarrow>
    hrs_total (calculateHours N (sh @ '':'' @ sm) (eh @ '':'' @ em) (Some (Num br))) =
      Num (round_double (round_double
             (round_double (round_double (round_double (c * 60) + d) -
                            round_double (round_double (a * 60) + b)) - br) / 60)) \<and>
    (a = of_int ai \<and> b = of_int bi \<and> c = of_int ci \<and> d = of_int di \<and> br = of_int bri \<and>
     \<bar>ai\<bar> \<le> 10 ^ 9 \<and> \<bar>bi\<bar> \<le> 10 ^ 9 \<and> \<bar>ci\<bar> \<le> 10 ^ 9 \<and> \<bar>di\<bar> \<le> 10 ^ 9 \<and> \<bar>bri\<bar> \<le> 10 ^ 9 \<longrightarrow>
     hrs_total (calculateHours N (sh @ '':'' @ sm) (eh @ '':'' @ em) (Some (Num br))) =
       Num (round_double (of_int ((ci * 60 + di) - (ai * 60 + bi) - bri) / 60)) \<and>
     hrs_billable (calculateHours N (sh @ '':'' @ sm) (eh @ '':'' @ em) (Some (Num br))) =
       Num (round_double (of_int ((ci * 60 + di) - (ai * 60 + bi) - bri) / 60)) \<and>
     \<bar>round_double (of_int ((ci * 60 + di) - (ai * 60 + bi) - bri) / 60) -
        of_int ((ci * 60 + di) - (ai * 60 + bi) - bri) / 60\<bar> \<le>
       \<bar>of_int ((ci * 60 + di) - (ai * 60 + bi) - bri) / 60\<bar> / 2 ^ 53 \<and>
     (bri \<noteq> 0 \<longrightarrow>
        hrs_total (calculateHours N (sh @ '':'' @ sm) (eh @ '':'' @ em) (Some (Num br))) \<noteq>
          Num (round_double (of_int ((ci * 60 + di) - (ai * 60 + bi)) / 60)) \<and>
        hrs_total (calculateHours N (sh @ '':'' @ sm) (eh @ '':'' @ em) (Some (Num br))) \<noteq>
          Num (of_int ((ci * 60 + di) - (ai * 60 + bi)) / 60))))"
proof (intro conjI impI)
  show "hrs_total (calculateHours N startTime endTime breakArg) =
     hrs_billable (calculateHours N startTime endTime breakArg)"
    by (simp add: calculateHours_def Let_def)
next
  assume p: "CHR '':'' \<notin> set sh \<and> CHR '':'' \<notin> set sm \<and> CHR '':'' \<notin> set eh \<and> CHR '':'' \<notin> set em \<and>
    N sh = Num a \<and> N sm = Num b \<and> N eh = Num c \<and> N em = Num d"
  have eq: "sh @ '':'' @ sm = sh @ CHR '':'' # sm" "eh @ '':'' @ em = eh @ CHR '':'' # em"
    by simp_all
  from p have "calculateHours N (sh @ CHR '':'' # sm) (eh @ CHR '':'' # em) (Some (Num br)) =
     \<lparr>hrs_total =
        js_div (js_sub (js_sub (js_add (js_mul (Num c) (Num 60)) (Num d))
                         (js_add (js_mul (Num a) (Num 60)) (Num b))) (Num br)) (Num 60),
      hrs_billable =
        js_div (js_sub (js_sub (js_add (js_mul (Num c) (Num 60)) (Num d))
                         (js_add (js_mul (Num a) (Num 60)) (Num b))) (Num br)) (Num 60)\<rparr>"
    by (intro calc_ops) simp_all
  then show "hrs_total (calculateHours N (sh @ '':'' @ sm) (eh @ '':'' @ em) (Some (Num br))) =
      Num (round_double (round_double
             (round_double (round_double (round_double (c * 60) + d) -
                            round_double (round_double (a * 60) + b)) - br) / 60))"
    unfolding eq by simp
  assume q: "a = of_int ai \<and> b = of_int bi \<and> c = of_int ci \<and> d = of_int di \<and> br = of_int bri \<and>
     \<bar>ai\<bar> \<le> 10 ^ 9 \<and> \<bar>bi\<bar> \<le> 10 ^ 9 \<and> \<bar>ci\<bar> \<le> 10 ^ 9 \<and> \<bar>di\<bar> \<le> 10 ^ 9 \<and> \<bar>bri\<bar> \<le> 10 ^ 9"
  then have bd: "\<bar>ai\<bar> \<le> 10 ^ 9" "\<bar>bi\<bar> \<le> 10 ^ 9" "\<bar>ci\<bar> \<le> 10 ^ 9" "\<bar>di\<bar> \<le> 10 ^ 9" "\<bar>bri\<bar> \<le> 10 ^ 9"
    by blast+
  from q have br: "br = of_int bri" by blast
  let ?net = "(ci * 60 + di) - (ai * 60 + bi) - bri"
  let ?gross = "(ci * 60 + di) - (ai * 60 + bi)"
  have c: "calculateHours N (sh @ CHR '':'' # sm) (eh @ CHR '':'' # em) (Some (Num (of_int bri))) =
     \<lparr>hrs_total = Num (round_double (of_int ?net / 60)),
      hrs_billable = Num (round_double (of_int ?net / 60))\<rparr>"
    using p q by (intro calc_parsed) simp_all
  show "hrs_total (calculateHours N (sh @ '':'' @ sm) (eh @ '':'' @ em) (Some (Num br))) =
      Num (round_double (of_int ?net / 60))"
    unfolding eq br c by simp
  show "hrs_billable (calculateHours N (sh @ '':'' @ sm) (eh @ '':'' @ em) (Some (Num br))) =
      Num (round_double (of_int ?net / 60))"
    unfolding eq br c by simp
  show "\<bar>round_double (of_int ?net / 60) - of_int ?net / 60\<bar> \<le> \<bar>of_int ?net / 60\<bar> / 2 ^ 53"
    by (rule sixtieth_error)
  have bn: "\<bar>?net\<bar> \<le> 10 ^ 12" "\<bar>?gross\<bar> \<le> 10 ^ 12" using bd by simp_all
  {
    assume "bri \<noteq> 0"
    then have ne: "?net \<noteq> ?gross" by simp
    show "hrs_total (calculateHours N (sh @ '':'' @ sm) (eh @ '':'' @ em) (Some (Num br))) \<noteq>
         Num (round_double (of_int ?gross / 60))"
      unfolding eq br c using sixtieth_distinct(1) [OF ne bn] by simp
    show "hrs_total (calculateHours N (sh @ '':'' @ sm) (eh @ '':'' @ em) (Some (Num br))) \<noteq>
         Num (of_int ?gross / 60)"
      unfolding eq br c using sixtieth_distinct(2) [OF ne bn] by simp
  }
qed

theorem calculateHours_total_equals_billable_witness:
  "hrs_total (calculateHours Number_dec ''09:00'' ''18:00'' (Some (Num 60))) = Num 8 \<and>
   hrs_billable (calculateHours Number_dec ''09:00'' ''18:00'' (Some (Num 60))) = Num 8 \<and>
   hrs_total (calculateHours Number_dec ''09:00'' ''18:00'' (Some (Num 60))) \<noteq> Num 9"
  using calculateHours_total_equals_billable
          [where N = Number_dec and startTime = "''09:00''" and endTime = "''18:00''"
             and breakArg = "Some (Num 60)"
             and sh = "''09''" and sm = "''00''" and eh = "''18''" and em = "''00''"
             and a = 9 and b = 0 and c = 18 and d = 0 and br = 60
             and ai = 9 and bi = 0 and ci = 18 and di = 0 and bri = 60]
  by (simp add: Number_dec_def is_digit_def dec_value_def round_simps)

text \<open>
  Claim C7. A call of \<open>create_timesheet\<close> in which one of the seven required
  arguments (client id, project id, category id, date, start time, end time, location
  id) is missing or empty is rejected with the \<open>InvalidParams\<close> error, and the state
  is the one before the call: no request has been sent and the employee id has not been
  looked up.
\<close>

theorem create_timesheet_requires_arguments:
  assumes "\<not> truthy_str (arg_client_id args) \<or> \<not> truthy_str (arg_project_id args) \<or>
           \<not> truthy_str (arg_category_id args) \<or> \<not> truthy_str (arg_date args) \<or>
           \<not> truthy_str (arg_start_time args) \<or> \<not> truthy_str (arg_end_time args) \<or>
           \<not> truthy_str (arg_location_id args)"
  shows "create_timesheet E args w = (Inl (McpError InvalidParams required_message), w) \<and>
         call_tool E CreateTimesheet args w = (Inl (McpError InvalidParams required_message), w)"
proof -
  have "create_timesheet E args w = (Inl (McpError InvalidParams required_message), w)"
    using assms by (auto simp: create_timesheet_def Let_def split: option.splits)
  then show ?thesis
    by (simp add: call_tool_def catch_block_def)
qed

theorem create_timesheet_requires_arguments_witness:
  "\<not> truthy_str (arg_client_id (no_args\<lparr>arg_project_id := Some ''PRJ1''\<rparr>)) \<and>
   create_timesheet example_env (no_args\<lparr>arg_project_id := Some ''PRJ1''\<rparr>) fresh_world =
     (Inl (McpError InvalidParams required_message), fresh_world) \<and>
   call_tool example_env CreateTimesheet (no_args\<lparr>arg_project_id := Some ''PRJ1''\<rparr>) fresh_world =
     (Inl (McpError InvalidParams required_message), fresh_world) \<and>
   sent fresh_world = []"
  using create_timesheet_requires_arguments
          [of "no_args\<lparr>arg_project_id := Some ''PRJ1''\<rparr>" example_env fresh_world]
  by (simp add: no_args_def fresh_world_def)

text \<open>
  Claim C1. Let the required arguments be present, the hours and minutes of the clock
  times and the break be whole numbers of at most \<open>10 ^ 9\<close> in size with
  \<open>end > start\<close> and \<open>0 \<le> break < end - start\<close>, and the employee id and the rate
  be obtained. Then \<open>create_timesheet\<close> submits a record whose billable hours \<open>B\<close>
  are the binary64 value nearest to \<open>(end - start - break) / 60\<close>, within one part in
  \<open>2 ^ 53\<close> of it, and whose total hours \<open>T\<close> are the rounded sum of \<open>B\<close> and the
  rounded \<open>break / 60\<close>; \<open>T - B\<close> differs from \<open>break / 60\<close> by at most
  \<open>(end - start) / 60 / 2 ^ 51\<close>. For 09:00 to 18:00 with a break of 60 minutes the
  hours are 8 and 9.
\<close>

theorem create_timesheet_derives_hours:
  assumes "clientId \<noteq> []" "projectId \<noteq> []" "categoryId \<noteq> []" "date \<noteq> []" "locationId \<noteq> []"
    and "CHR '':'' \<notin> set sh" "CHR '':'' \<notin> set sm" "CHR '':'' \<notin> set eh" "CHR '':'' \<notin> set em"
    and "Number E sh = Num (of_int a)" "Number E sm = Num (of_int b)"
    and "Number E eh = Num (of_int c)" "Number E em = Num (of_int d)"
    and "or_num breakArg (Num 0) = Num (of_int br)"
    and "\<bar>a\<bar> \<le> 10 ^ 9" "\<bar>b\<bar> \<le> 10 ^ 9" "\<bar>c\<bar> \<le> 10 ^ 9" "\<bar>d\<bar> \<le> 10 ^ 9"
    and "a * 60 + b < c * 60 + d" "0 \<le> br" "br < (c * 60 + d) - (a * 60 + b)"
    and "getEmployeeId E w = (Inr empId, w')"
    and "getClientRate E clientId w' = (Inr rateInfo, w'')"
  shows "\<exists>dto B T.
           sent (snd (create_timesheet E
             \<lparr>arg_timesheet_id = tid, arg_client_id = Some clientId,
              arg_project_id = Some projectId, arg_category_id = Some categoryId,
              arg_date = Some date, arg_start_time = Some (sh @ '':'' @ sm),
              arg_end_time = Some (eh @ '':'' @ em), arg_break_minutes = breakArg,
              arg_location_id = Some locationId, arg_billable_id = billableId,
              arg_note = noteArg\<rparr> w)) = sent w'' @ [SaveTimesheet False dto] \<and>
           dto_TimeBillable dto = Num B \<and> dto_TimeTotal dto = Num T \<and>
           B = round_double (of_int ((c * 60 + d) - (a * 60 + b) - br) / 60) \<and>
           T = round_double (B + round_double (of_int br / 60)) \<and>
           \<bar>B - of_int ((c * 60 + d) - (a * 60 + b) - br) / 60\<bar> \<le>
             of_int ((c * 60 + d) - (a * 60 + b) - br) / 60 / 2 ^ 53 \<and>
           \<bar>T - B - of_int br / 60\<bar> \<le> of_int ((c * 60 + d) - (a * 60 + b)) / 60 / 2 ^ 51"
proof -
  define net where "net = (c * 60 + d) - (a * 60 + b) - br"
  define n60 :: rat where "n60 = of_int net / 60"
  define b60 :: rat where "b60 = of_int br / 60"
  define B where "B = round_double n60"
  define rb where "rb = round_double b60"
  define T where "T = round_double (B + rb)"
  have net1: "1 \<le> net" using assms(21) by (simp add: net_def)
  then have "(of_int 1 :: rat) \<le> of_int net" by (simp only: of_int_le_iff)
  then have n60: "1 / 60 \<le> n60" by (simp add: n60_def)
  have "(of_int 0 :: rat) \<le> of_int br" using assms(20) by (simp only: of_int_le_iff)
  then have b60: "0 \<le> b60" by (simp add: b60_def)
  have p: "(2::rat) ^ 53 = 9007199254740992" "(2::rat) ^ 51 = 2251799813685248"
    "(2::rat) ^ 10 = 1024"
    by simp_all
  have "\<bar>round_double n60 - n60\<bar> \<le> \<bar>n60\<bar> / 2 ^ 53"
    unfolding n60_def by (rule sixtieth_error)
  then have e1: "\<bar>B - n60\<bar> \<le> n60 / 9007199254740992"
    using n60 unfolding B_def p by linarith
  have "\<bar>round_double b60 - b60\<bar> \<le> \<bar>b60\<bar> / 2 ^ 53"
    unfolding b60_def by (rule sixtieth_error)
  then have e2: "\<bar>rb - b60\<bar> \<le> b60 / 9007199254740992"
    using b60 unfolding rb_def p by linarith
  have Bpos: "1 / 1024 \<le> B" using e1 n60 by linarith
  have rb0: "0 \<le> rb" using e2 b60 by linarith
  have "B + rb = 0 \<or> 1 / 2 ^ 10 \<le> \<bar>B + rb\<bar>"
    unfolding p using Bpos rb0 by linarith
  then have "\<bar>round_double (B + rb) - (B + rb)\<bar> \<le> \<bar>B + rb\<bar> / 2 ^ 53"
    by (rule round_double_near)
  moreover have "\<bar>B + rb\<bar> = B + rb"
    using Bpos rb0 by linarith
  ultimately have e3: "\<bar>T - (B + rb)\<bar> \<le> B / 9007199254740992 + rb / 9007199254740992"
    unfolding T_def p by (simp only: add_divide_distrib)
  have B2: "B \<le> 2 * n60" using e1 n60 by linarith
  have rb2: "rb \<le> 2 * b60" using e2 b60 by linarith
  have u3: "T - (B + rb) \<le> (n60 / 4503599627370496 + b60 / 4503599627370496)"
    using e3 B2 rb2 by linarith
  have l3: "- ((n60 / 4503599627370496 + b60 / 4503599627370496)) \<le> T - (B + rb)"
    using e3 B2 rb2 by linarith
  have u2: "rb - b60 \<le> b60 / 9007199254740992"
    using e2 by linarith
  have l2: "- (b60 / 9007199254740992) \<le> rb - b60"
    using e2 by linarith
  have u1: "T - B - b60 \<le> (n60 / 2251799813685248 + b60 / 2251799813685248)"
    using u3 u2 n60 b60 by linarith
  have l1: "- (T - B - b60) \<le> (n60 / 2251799813685248 + b60 / 2251799813685248)"
    using l3 l2 n60 b60 by linarith
  from u1 l1 have tol: "\<bar>T - B - b60\<bar> \<le> (n60 / 2251799813685248 + b60 / 2251799813685248)"
    by (rule abs_leI)
  have g: "(of_int ((c * 60 + d) - (a * 60 + b)) :: rat) / 60 = n60 + b60"
    by (simp add: n60_def b60_def net_def add_divide_distrib [symmetric])
  have brb: "\<bar>br\<bar> \<le> 10 ^ 12" using assms(15-18,20,21) by simp
  have h: "calculateHours (Number E) (sh @ CHR '':'' # sm) (eh @ CHR '':'' # em)
             (Some (Num (of_int br))) = \<lparr>hrs_total = Num B, hrs_billable = Num B\<rparr>"
    unfolding B_def n60_def net_def
    using assms(6-13,15-18) brb by (rule calc_parsed)
  have pos: "\<not> B \<le> 0" using Bpos by linarith
  have l: "js_div (Num (of_int br)) (Num 60) = Num rb"
    by (simp add: rb_def b60_def)
  have t: "js_add (Num B) (Num rb) = Num T"
    by (simp add: T_def)
  let ?dto = "create_dto empId clientId projectId categoryId locationId billableId date
                (sh @ CHR '':'' # sm) (eh @ CHR '':'' # em) (Num (of_int br))
                \<lparr>hrs_total = Num B, hrs_billable = Num B\<rparr> (Rate rateInfo) noteArg"
  have s: "sent (snd (create_timesheet E
             \<lparr>arg_timesheet_id = tid, arg_client_id = Some clientId,
              arg_project_id = Some projectId, arg_category_id = Some categoryId,
              arg_date = Some date, arg_start_time = Some (sh @ '':'' @ sm),
              arg_end_time = Some (eh @ '':'' @ em), arg_break_minutes = breakArg,
              arg_location_id = Some locationId, arg_billable_id = billableId,
              arg_note = noteArg\<rparr> w)) = sent w'' @ [SaveTimesheet False ?dto]"
    using assms(1-5,14,22,23) pos
    by (simp add: create_timesheet_def h createTimesheet_def fetch_world snd_propagate Let_def)
  have f: "dto_TimeBillable ?dto = Num B" "dto_TimeTotal ?dto = Num T"
    unfolding create_dto_def Let_def l by (simp_all add: T_def)
  have r1: "\<bar>B - of_int ((c * 60 + d) - (a * 60 + b) - br) / 60\<bar> \<le>
             of_int ((c * 60 + d) - (a * 60 + b) - br) / 60 / 2 ^ 53"
    using e1 unfolding p n60_def net_def .
  have r2: "\<bar>T - B - of_int br / 60\<bar> \<le> of_int ((c * 60 + d) - (a * 60 + b)) / 60 / 2 ^ 51"
    using tol unfolding p g b60_def add_divide_distrib [symmetric] .
  have dB: "B = round_double (of_int ((c * 60 + d) - (a * 60 + b) - br) / 60)"
    unfolding B_def n60_def net_def ..
  have dT: "T = round_double (B + round_double (of_int br / 60))"
    unfolding T_def rb_def b60_def ..
  from s f dB dT r1 r2 show ?thesis by blast
qed

theorem create_timesheet_derives_hours_witness:
  "\<exists>dto.
     sent (snd (create_timesheet example_env (create_args ''09:00'' ''18:00'' (Num 60))
                  fresh_world)) =
       [GetEmployeeID, GetClientRate (Some ''EMP1'') ''SSW'', SaveTimesheet False dto] \<and>
     dto_TimeBillable dto = Num 8 \<and> dto_TimeTotal dto = Num 9"
  using create_timesheet_derives_hours
          [where E = example_env and w = fresh_world and empId = "Some ''EMP1''"
             and w' = "\<lparr>employeeId = Some (Some ''EMP1''), sent = [GetEmployeeID]\<rparr>"
             and clientId = "''SSW''" and projectId = "''PRJ1''" and categoryId = "''DEV''"
             and date = "''2024-03-05''" and locationId = "''OFFICE''"
             and sh = "''09''" and sm = "''00''" and eh = "''18''" and em = "''00''"
             and a = 9 and b = 0 and c = 18 and d = 0 and breakArg = "Some (Num 60)"
             and br = 60 and rateInfo = "\<lparr>Rate = Some (Num 250)\<rparr>"
             and w'' = "\<lparr>employeeId = Some (Some ''EMP1''),
                   sent = [GetEmployeeID, GetClientRate (Some ''EMP1'') ''SSW'']\<rparr>"
             and tid = None and billableId = None and noteArg = None]
        example_getEmployeeId example_getClientRate example_Number
  by (simp add: create_args_def no_args_def or_num_def round_simps)

text \<open>
  Claim C2, amended. Let the required arguments be present, the clock times read as
  numbers, the elapsed minutes \<open>g\<close> that the source computes from them be at most
  the break, and the employee id be obtained. Then \<open>create_timesheet\<close> throws the
  \<open>InvalidParams\<close> error whose message names the break, the start time and the end
  time. The state is the one after the employee id was obtained: at most the identity
  request has been sent, and neither the rate lookup nor the save follows. For whole
  hours and minutes of at most \<open>10 ^ 9\<close> in size no operation rounds, and \<open>g\<close> is
  \<open>end - start\<close>.
\<close>

theorem create_timesheet_rejects_nonpositive:
  assumes "clientId \<noteq> []" "projectId \<noteq> []" "categoryId \<noteq> []" "date \<noteq> []" "locationId \<noteq> []"
    and "CHR '':'' \<notin> set sh" "CHR '':'' \<notin> set sm" "CHR '':'' \<notin> set eh" "CHR '':'' \<notin> set em"
    and "Number E sh = Num a" "Number E sm = Num b" "Number E eh = Num c" "Number E em = Num d"
    and "or_num breakArg (Num 0) = Num br"
    and "js_sub (js_add (js_mul (Num c) (Num 60)) (Num d))
                (js_add (js_mul (Num a) (Num 60)) (Num b)) = Num g"
    and "g \<le> br"
    and "getEmployeeId E w = (Inr empId, w')"
  shows "create_timesheet E
           \<lparr>arg_timesheet_id = tid, arg_client_id = Some clientId,
            arg_project_id = Some projectId, arg_category_id = Some categoryId,
            arg_date = Some date, arg_start_time = Some (sh @ '':'' @ sm),
            arg_end_time = Some (eh @ '':'' @ em), arg_break_minutes = breakArg,
            arg_location_id = Some locationId, arg_billable_id = billableId,
            arg_note = noteArg\<rparr> w =
         (Inl (McpError InvalidParams
            (''Invalid time range: break_minutes ('' @ String_of E (Num br) @
             '') exceeds or equals total work time. Start: '' @ sh @ '':'' @ sm @
             '', End: '' @ eh @ '':'' @ em @
             '', Total hours: '' @
               String_of E (Num (round_double (round_double (round_double (g - br) / 60) +
                                               round_double (br / 60)))) @
             '', Break: '' @ String_of E (Num (round_double (br / 60))) @
             '' hours. Billable hours must be positive.'')), w') \<and>
         (sent w' = sent w \<or> sent w' = sent w @ [GetEmployeeID]) \<and>
         (\<exists>message.
            call_tool E CreateTimesheet
              \<lparr>arg_timesheet_id = tid, arg_client_id = Some clientId,
               arg_project_id = Some projectId, arg_category_id = Some categoryId,
               arg_date = Some date, arg_start_time = Some (sh @ '':'' @ sm),
               arg_end_time = Some (eh @ '':'' @ em), arg_break_minutes = breakArg,
               arg_location_id = Some locationId, arg_billable_id = billableId,
               arg_note = noteArg\<rparr> w = (Inl (McpError InvalidParams message), w')) \<and>
         (a = of_int ai \<and> b = of_int bi \<and> c = of_int ci \<and> d = of_int di \<and>
          \<bar>ai\<bar> \<le> 10 ^ 9 \<and> \<bar>bi\<bar> \<le> 10 ^ 9 \<and> \<bar>ci\<bar> \<le> 10 ^ 9 \<and> \<bar>di\<bar> \<le> 10 ^ 9 \<longrightarrow>
          g = of_int ((ci * 60 + di) - (ai * 60 + bi)))"
proof -
  define t where "t = round_double (round_double (g - br) / 60)"
  have "g - br \<le> 0" using assms(16) by simp
  then have "round_double (g - br) \<le> 0" by (rule round_double_nonpos)
  then have "round_double (g - br) / 60 \<le> 0" by simp
  then have neg: "t \<le> 0" unfolding t_def by (rule round_double_nonpos)
  have h: "calculateHours (Number E) (sh @ CHR '':'' # sm) (eh @ CHR '':'' # em) (Some (Num br)) =
             \<lparr>hrs_total = Num t, hrs_billable = Num t\<rparr>"
    unfolding calc_ops [OF assms(6-13)] assms(15) by (simp add: t_def)
  have m: "js_add (Num t) (Num (round_double (br / 60))) =
           Num (round_double (round_double (round_double (g - br) / 60) + round_double (br / 60)))"
    by (simp add: t_def)
  have l: "js_div (Num br) (Num 60) = Num (round_double (br / 60))"
    by simp
  have s: "sent w' = sent w \<or> sent w' = sent w @ [GetEmployeeID]"
    using assms(17) by (rule getEmployeeId_sent)
  have r: "create_timesheet E
           \<lparr>arg_timesheet_id = tid, arg_client_id = Some clientId,
            arg_project_id = Some projectId, arg_category_id = Some categoryId,
            arg_date = Some date, arg_start_time = Some (sh @ '':'' @ sm),
            arg_end_time = Some (eh @ '':'' @ em), arg_break_minutes = breakArg,
            arg_location_id = Some locationId, arg_billable_id = billableId,
            arg_note = noteArg\<rparr> w =
         (Inl (McpError InvalidParams
            (''Invalid time range: break_minutes ('' @ String_of E (Num br) @
             '') exceeds or equals total work time. Start: '' @ sh @ '':'' @ sm @
             '', End: '' @ eh @ '':'' @ em @
             '', Total hours: '' @
               String_of E (Num (round_double (round_double (round_double (g - br) / 60) +
                                               round_double (br / 60)))) @
             '', Break: '' @ String_of E (Num (round_double (br / 60))) @
             '' hours. Billable hours must be positive.'')), w')"
    using assms(1-5,14,17) neg
    by (simp add: create_timesheet_def h invalid_range_message_def Let_def m l
             del: js_add.simps js_div.simps)
  have c: "\<exists>message.
            call_tool E CreateTimesheet
              \<lparr>arg_timesheet_id = tid, arg_client_id = Some clientId,
               arg_project_id = Some projectId, arg_category_id = Some categoryId,
               arg_date = Some date, arg_start_time = Some (sh @ '':'' @ sm),
               arg_end_time = Some (eh @ '':'' @ em), arg_break_minutes = breakArg,
               arg_location_id = Some locationId, arg_billable_id = billableId,
               arg_note = noteArg\<rparr> w = (Inl (McpError InvalidParams message), w')"
    using r by (simp add: call_tool_def catch_block_def)
  have i: "a = of_int ai \<and> b = of_int bi \<and> c = of_int ci \<and> d = of_int di \<and>
          \<bar>ai\<bar> \<le> 10 ^ 9 \<and> \<bar>bi\<bar> \<le> 10 ^ 9 \<and> \<bar>ci\<bar> \<le> 10 ^ 9 \<and> \<bar>di\<bar> \<le> 10 ^ 9 \<longrightarrow>
          g = of_int ((ci * 60 + di) - (ai * 60 + bi))"
  proof
    assume k: "a = of_int ai \<and> b = of_int bi \<and> c = of_int ci \<and> d = of_int di \<and>
          \<bar>ai\<bar> \<le> 10 ^ 9 \<and> \<bar>bi\<bar> \<le> 10 ^ 9 \<and> \<bar>ci\<bar> \<le> 10 ^ 9 \<and> \<bar>di\<bar> \<le> 10 ^ 9"
    then have bd: "\<bar>ai\<bar> \<le> 10 ^ 9" "\<bar>bi\<bar> \<le> 10 ^ 9" "\<bar>ci\<bar> \<le> 10 ^ 9" "\<bar>di\<bar> \<le> 10 ^ 9"
      by blast+
    from k have eq: "a = of_int ai" "b = of_int bi" "c = of_int ci" "d = of_int di"
      by blast+
    have "js_sub (Num (of_int (ci * 60 + di))) (Num (of_int (ai * 60 + bi))) =
           Num (of_int ((ci * 60 + di) - (ai * 60 + bi)))"
      using bd by (intro js_int_ops) simp
    then have "Num g = Num (of_int ((ci * 60 + di) - (ai * 60 + bi)))"
      using assms(15)
      unfolding eq minutes_exact [OF bd(1,2)] minutes_exact [OF bd(3,4)] by simp
    then show "g = of_int ((ci * 60 + di) - (ai * 60 + bi))" by simp
  qed
  from r s c i show ?thesis by blast
qed

theorem create_timesheet_rejects_nonpositive_witness:
  "create_timesheet example_env (create_args ''09:00'' ''10:00'' (Num 60)) fresh_world =
     (Inl (McpError InvalidParams
        ''Invalid time range: break_minutes (60) exceeds or equals total work time. Start: 09:00, End: 10:00, Total hours: 1, Break: 1 hours. Billable hours must be positive.''),
      \<lparr>employeeId = Some (Some ''EMP1''), sent = [GetEmployeeID]\<rparr>)"
  using create_timesheet_rejects_nonpositive
          [where E = example_env and w = fresh_world and empId = "Some ''EMP1''"
             and w' = "\<lparr>employeeId = Some (Some ''EMP1''), sent = [GetEmployeeID]\<rparr>"
             and clientId = "''SSW''" and projectId = "''PRJ1''" and categoryId = "''DEV''"
             and date = "''2024-03-05''" and locationId = "''OFFICE''"
             and sh = "''09''" and sm = "''00''" and eh = "''10''" and em = "''00''"
             and a = 9 and b = 0 and c = 10 and d = 0 and breakArg = "Some (Num 60)"
             and br = 60 and g = 60 and tid = None and billableId = None and noteArg = None
             and ai = 9 and bi = 0 and ci = 10 and di = 0]
        example_getEmployeeId example_Number
  by (simp add: create_args_def no_args_def or_num_def example_env_def show_nat.simps round_simps)

text \<open>
  The claim as stated fails on both handlers. For 09:00 to 10:00 with a break of 60
  minutes, \<open>create_timesheet\<close> has sent the identity request by the time it fails,
  and \<open>update_timesheet\<close> does not fail: it submits the record with 0 billable hours.
\<close>

theorem invalid_range_counterexample:
  "sent (snd (create_timesheet example_env (create_args ''09:00'' ''10:00'' (Num 60))
                fresh_world)) = [GetEmployeeID] \<and>
   update_timesheet example_env
     (no_args\<lparr>arg_timesheet_id := Some (Num 7), arg_start_time := Some ''09:00'',
              arg_end_time := Some ''10:00'', arg_break_minutes := Some (Num 60)\<rparr>) fresh_world =
     (Inr (UpdateSuccess (Num 7)),
      \<lparr>employeeId = Some (Some ''EMP1''),
       sent = [GetEditTimesheetsView (Num 7), GetEmployeeID,
               SaveTimesheet True
                 \<lparr>dto_TimeID = Some (Num 7), dto_EmpID = Some ''EMP1'',
                  dto_ClientID = Some ''SSW'', dto_ProjectID = Some ''PRJ1'',
                  dto_CategoryID = Some ''DEV'', dto_LocationID = Some ''OFFICE'',
                  dto_BillableID = Some ''B'', dto_DateCreated = ''2024-03-05'',
                  dto_TimeStart = ''2024-03-05T09:00:00'',
                  dto_TimeEnd = ''2024-03-05T10:00:00'', dto_TimeLess = Num 1,
                  dto_TimeTotal = Num 1, dto_TimeBillable = Num 0,
                  dto_SellPrice = Some (Num 250), dto_SalesTaxPct = one_tenth,
                  dto_Notes = Some ''design review''\<rparr>]\<rparr>)"
  by (simp add: example_defs run_defs)

section \<open>The merge of the update handler\<close>

text \<open>
  Claim C3. When \<open>update_timesheet\<close> gets as far as submitting, the note it submits
  follows the presence of the \<open>note\<close> argument, not its truthiness: an argument that
  is the empty string gives the empty note, any argument that is present is submitted
  as it is, and without the argument the note of the existing record is submitted.
\<close>

theorem update_timesheet_note_presence:
  assumes "arg_timesheet_id args = Some (Num t)" "t \<noteq> 0"
    and "getTimesheet E (Num t) w = (Inr existing, w')"
    and "DateCreated existing = Some d" "StartTime existing = Some st" "EndTime existing = Some et"
    and "getEmployeeId E w' = (Inr empId, w'')"
  shows "\<exists>dto.
           sent (snd (update_timesheet E args w)) = sent w'' @ [SaveTimesheet True dto] \<and>
           (arg_note args = Some [] \<longrightarrow> dto_Notes dto = Some []) \<and>
           (\<forall>n. arg_note args = Some n \<longrightarrow> dto_Notes dto = Some n) \<and>
           (arg_note args = None \<longrightarrow> dto_Notes dto = Note existing)"
proof -
  from update_timesheet_submits [OF assms]
  obtain m where m: "merge_overrides E args existing = Inr m"
    and s: "sent (snd (update_timesheet E args w)) =
           sent w'' @ [SaveTimesheet True (update_dto E (Num t) empId existing m)]"
    by blast
  note f = merged_fields [OF m assms(4-6)]
  show ?thesis
    by (rule exI [of _ "update_dto E (Num t) empId existing m"])
       (simp add: s update_dto_def Let_def f)
qed

theorem update_timesheet_note_presence_witness:
  "(\<exists>dto. sent (snd (update_timesheet example_env
                (no_args\<lparr>arg_timesheet_id := Some (Num 7), arg_note := Some []\<rparr>)
                fresh_world)) =
            [GetEditTimesheetsView (Num 7), GetEmployeeID, SaveTimesheet True dto] \<and>
          dto_Notes dto = Some []) \<and>
   (\<exists>dto. sent (snd (update_timesheet example_env
                (no_args\<lparr>arg_timesheet_id := Some (Num 7)\<rparr>) fresh_world)) =
            [GetEditTimesheetsView (Num 7), GetEmployeeID, SaveTimesheet True dto] \<and>
          dto_Notes dto = Some ''design review'')"
  using update_timesheet_note_presence
          [where args = "no_args\<lparr>arg_timesheet_id := Some (Num 7), arg_note := Some []\<rparr>"
             and t = 7, OF _ _ example_getTimesheet example_record_fields(1-3)
             example_getEmployeeId_after]
        update_timesheet_note_presence
          [where args = "no_args\<lparr>arg_timesheet_id := Some (Num 7)\<rparr>"
             and t = 7, OF _ _ example_getTimesheet example_record_fields(1-3)
             example_getEmployeeId_after]
  by (simp add: no_args_def example_record_fields)

text \<open>
  Claim C4, amended. When \<open>update_timesheet\<close> gets as far as submitting, each of
  the other optional string arguments is merged by truthiness: an override that is
  present and not empty wins; an override that is absent or the empty string gives way
  to the existing record. The client, project, category, location and billable ids of
  the record are carried forward as they are, its date up to the first \<open>T\<close>, and its
  start and end time cut to their first five characters.
\<close>

theorem update_timesheet_truthy_overrides:
  assumes "arg_timesheet_id args = Some (Num t)" "t \<noteq> 0"
    and "getTimesheet E (Num t) w = (Inr existing, w')"
    and "DateCreated existing = Some d" "StartTime existing = Some st" "EndTime existing = Some et"
    and "getEmployeeId E w' = (Inr empId, w'')"
  shows "\<exists>dto.
           sent (snd (update_timesheet E args w)) = sent w'' @ [SaveTimesheet True dto] \<and>
           dto_ClientID dto =
             (if truthy_str (arg_client_id args) then arg_client_id args else ClientID existing) \<and>
           dto_ProjectID dto =
             (if truthy_str (arg_project_id args) then arg_project_id args else ProjectID existing) \<and>
           dto_CategoryID dto =
             (if truthy_str (arg_category_id args) then arg_category_id args
              else CategoryID existing) \<and>
           dto_LocationID dto =
             (if truthy_str (arg_location_id args) then arg_location_id args
              else LocationID existing) \<and>
           dto_BillableID dto =
             (if truthy_str (arg_billable_id args) then arg_billable_id args
              else BillableID existing) \<and>
           Some (dto_DateCreated dto) =
             (if truthy_str (arg_date args) then arg_date args
              else Some (hd (split_on CHR ''T'' d))) \<and>
           Some (dto_TimeStart dto) =
             map_option (formatDateTime (dto_DateCreated dto))
               (if truthy_str (arg_start_time args) then arg_start_time args
                else Some (take 5 st)) \<and>
           Some (dto_TimeEnd dto) =
             map_option (formatDateTime (dto_DateCreated dto))
               (if truthy_str (arg_end_time args) then arg_end_time args
                else Some (take 5 et))"
proof -
  from update_timesheet_submits [OF assms]
  obtain m where m: "merge_overrides E args existing = Inr m"
    and s: "sent (snd (update_timesheet E args w)) =
           sent w'' @ [SaveTimesheet True (update_dto E (Num t) empId existing m)]"
    by blast
  note f = merged_fields [OF m assms(4-6)]
  show ?thesis
    by (rule exI [of _ "update_dto E (Num t) empId existing m"])
       (simp add: s update_dto_def Let_def f or_else_def split: option.splits)
qed

theorem update_timesheet_truthy_overrides_witness:
  "\<exists>dto. sent (snd (update_timesheet example_env
                (no_args\<lparr>arg_timesheet_id := Some (Num 7), arg_client_id := Some ''ACME'',
                         arg_project_id := Some [], arg_start_time := Some ''10:00''\<rparr>)
                fresh_world)) =
            [GetEditTimesheetsView (Num 7), GetEmployeeID, SaveTimesheet True dto] \<and>
          dto_ClientID dto = Some ''ACME'' \<and> dto_ProjectID dto = Some ''PRJ1'' \<and>
          dto_DateCreated dto = ''2024-03-05'' \<and>
          dto_TimeStart dto = ''2024-03-05T10:00:00'' \<and>
          dto_TimeEnd dto = ''2024-03-05T18:00:00''"
  using update_timesheet_truthy_overrides
          [where args = "no_args\<lparr>arg_timesheet_id := Some (Num 7), arg_client_id := Some ''ACME'',
                         arg_project_id := Some [], arg_start_time := Some ''10:00''\<rparr>"
             and t = 7, OF _ _ example_getTimesheet example_record_fields(1-3)
             example_getEmployeeId_after]
  by (auto simp: no_args_def example_record_fields formatDateTime_def Let_def)

text \<open>
  The claim as stated fails: an override of the client id by the empty string does not
  win. The record submitted keeps the client id \<open>SSW\<close> of the existing record.
\<close>

theorem truthy_overrides_counterexample:
  "arg_client_id (no_args\<lparr>arg_timesheet_id := Some (Num 7), arg_client_id := Some []\<rparr>) =
     Some [] \<and>
   update_timesheet example_env
     (no_args\<lparr>arg_timesheet_id := Some (Num 7), arg_client_id := Some []\<rparr>) fresh_world =
     (Inr (UpdateSuccess (Num 7)),
      \<lparr>employeeId = Some (Some ''EMP1''),
       sent = [GetEditTimesheetsView (Num 7), GetEmployeeID,
               SaveTimesheet True
                 \<lparr>dto_TimeID = Some (Num 7), dto_EmpID = Some ''EMP1'',
                  dto_ClientID = Some ''SSW'', dto_ProjectID = Some ''PRJ1'',
                  dto_CategoryID = Some ''DEV'', dto_LocationID = Some ''OFFICE'',
                  dto_BillableID = Some ''B'', dto_DateCreated = ''2024-03-05'',
                  dto_TimeStart = ''2024-03-05T09:00:00'',
                  dto_TimeEnd = ''2024-03-05T18:00:00'', dto_TimeLess = Num 1,
                  dto_TimeTotal = Num 9, dto_TimeBillable = Num 8,
                  dto_SellPrice = Some (Num 250), dto_SalesTaxPct = one_tenth,
                  dto_Notes = Some ''design review''\<rparr>]\<rparr>)"
  by (simp add: example_defs run_defs)

text \<open>
  Claim C5, amended. Let the existing record hold clock times whose hours and minutes are
  whole numbers and a break that is a whole number of minutes, each of at most
  \<open>10 ^ 9\<close> in size. Then an update with no override submits duration fields that are
  computed from these times and this break alone, whatever billable and total hours the
  record stores: billable hours the binary64 value nearest to
  \<open>(end - start - break) / 60\<close>, a break of the rounded \<open>break / 60\<close> hours, and
  total hours the rounded sum of the two. So the stored billable hours, and the stored
  total hours, are submitted unchanged exactly when they are these computed values, and
  the stored break exactly when it is 0.
\<close>

theorem update_timesheet_empty_overrides:
  assumes "t \<noteq> 0"
    and "getTimesheet E (Num t) w = (Inr existing, w')"
    and "DateCreated existing = Some d" "StartTime existing = Some st" "EndTime existing = Some et"
    and "take 5 st = sh @ '':'' @ sm" "take 5 et = eh @ '':'' @ em"
    and "CHR '':'' \<notin> set sh" "CHR '':'' \<notin> set sm" "CHR '':'' \<notin> set eh" "CHR '':'' \<notin> set em"
    and "Number E sh = Num (of_int a)" "Number E sm = Num (of_int b)"
    and "Number E eh = Num (of_int c)" "Number E em = Num (of_int e)"
    and "TimeLess existing = Some (Num (of_int br))"
    and "\<bar>a\<bar> \<le> 10 ^ 9" "\<bar>b\<bar> \<le> 10 ^ 9" "\<bar>c\<bar> \<le> 10 ^ 9" "\<bar>e\<bar> \<le> 10 ^ 9" "\<bar>br\<bar> \<le> 10 ^ 9"
    and "getEmployeeId E w' = (Inr empId, w'')"
  shows "\<exists>dto.
           sent (snd (update_timesheet E (no_args\<lparr>arg_timesheet_id := Some (Num t)\<rparr>) w)) =
             sent w'' @ [SaveTimesheet True dto] \<and>
           dto_TimeBillable dto =
             Num (round_double (of_int ((c * 60 + e) - (a * 60 + b) - br) / 60)) \<and>
           dto_TimeLess dto = Num (round_double (of_int br / 60)) \<and>
           dto_TimeTotal dto =
             Num (round_double (round_double (of_int ((c * 60 + e) - (a * 60 + b) - br) / 60) +
                                round_double (of_int br / 60))) \<and>
           (Some (dto_TimeBillable dto) = TimeBillable existing \<longleftrightarrow>
              TimeBillable existing =
                Some (Num (round_double (of_int ((c * 60 + e) - (a * 60 + b) - br) / 60)))) \<and>
           (Some (dto_TimeTotal dto) = TimeTotal existing \<longleftrightarrow>
              TimeTotal existing =
                Some (Num (round_double
                  (round_double (of_int ((c * 60 + e) - (a * 60 + b) - br) / 60) +
                   round_double (of_int br / 60))))) \<and>
           (Some (dto_TimeLess dto) = TimeLess existing \<longleftrightarrow> br = 0)"
proof -
  let ?args = "no_args\<lparr>arg_timesheet_id := Some (Num t)\<rparr>"
  define B where "B = round_double (of_int ((c * 60 + e) - (a * 60 + b) - br) / 60)"
  define L where "L = round_double (of_int br / 60)"
  have id: "arg_timesheet_id ?args = Some (Num t)" by simp
  from update_timesheet_submits [OF id assms(1-5) assms(22)]
  obtain m where m: "merge_overrides E ?args existing = Inr m"
    and s: "sent (snd (update_timesheet E ?args w)) =
           sent w'' @ [SaveTimesheet True (update_dto E (Num t) empId existing m)]"
    by blast
  note f = merged_fields [OF m assms(3-5)]
  have st: "m_startTime m = sh @ CHR '':'' # sm" and et: "m_endTime m = eh @ CHR '':'' # em"
    and bm: "m_breakMinutes m = Some (Num (of_int br))"
    using f(7,8,9) assms(6,7,16) by (simp_all add: no_args_def)
  have brb: "\<bar>br\<bar> \<le> 10 ^ 12" using assms(21) by simp
  have h: "calculateHours (Number E) (m_startTime m) (m_endTime m) (Some (Num (of_int br))) =
     \<lparr>hrs_total = Num B, hrs_billable = Num B\<rparr>"
    unfolding st et B_def using assms(8-15,17-20) brb by (rule calc_parsed)
  let ?dto = "update_dto E (Num t) empId existing m"
  have v: "dto_TimeBillable ?dto = Num B" "dto_TimeLess ?dto = Num L"
    "dto_TimeTotal ?dto = Num (round_double (B + L))"
    unfolding update_dto_def Let_def bm h by (simp_all add: L_def)
  have z: "(L = of_int br) = (br = 0)"
  proof (cases "br = 0")
    case True
    then show ?thesis by (simp add: L_def)
  next
    case False
    then show ?thesis unfolding L_def using sixtieth_not_whole [OF False brb] by simp
  qed
  have i: "(Some (dto_TimeBillable ?dto) = TimeBillable existing) =
             (TimeBillable existing = Some (Num B))"
    "(Some (dto_TimeTotal ?dto) = TimeTotal existing) =
             (TimeTotal existing = Some (Num (round_double (B + L))))"
    "(Some (dto_TimeLess ?dto) = TimeLess existing) = (br = 0)"
    unfolding v assms(16) using z by auto
  from s v i show ?thesis unfolding B_def L_def by blast
qed

theorem update_timesheet_empty_overrides_witness:
  "\<exists>dto. sent (snd (update_timesheet example_env
                (no_args\<lparr>arg_timesheet_id := Some (Num 7)\<rparr>) fresh_world)) =
            [GetEditTimesheetsView (Num 7), GetEmployeeID, SaveTimesheet True dto] \<and>
          dto_TimeBillable dto = Num 8 \<and> dto_TimeTotal dto = Num 9 \<and>
          dto_TimeLess dto = Num 1"
  using update_timesheet_empty_overrides
          [where t = 7 and sh = "''09''" and sm = "''00''" and eh = "''18''" and em = "''00''"
             and a = 9 and b = 0 and c = 18 and e = 0 and br = 60,
           OF _ example_getTimesheet example_record_fields(1-3) _ _ _ _ _ _
             _ _ _ _ _ _ _ _ _ _ example_getEmployeeId_after]
        example_Number
  by (simp add: example_record_fields round_simps) blast

text \<open>
  The claim as stated fails on two records. The first stores 7 billable hours against
  09:00 to 18:00 with a break of 60 minutes: the billable hours submitted are the
  computed 8. The second is consistent: 09:00 to 09:12 with a break of 10 minutes, total
  hours the binary64 value that prints as 0.2. The total hours submitted are the rounded
  sum of the rounded \<open>2 / 60\<close> and \<open>10 / 60\<close>, which prints as
  0.19999999999999998.
\<close>

theorem empty_overrides_counterexample:
  "TimeBillable overridden_record = Some (Num 7) \<and>
   update_timesheet (example_env\<lparr>as_details := \<lambda>text. overridden_record\<rparr>)
     (no_args\<lparr>arg_timesheet_id := Some (Num 7)\<rparr>) fresh_world =
     (Inr (UpdateSuccess (Num 7)),
      \<lparr>employeeId = Some (Some ''EMP1''),
       sent = [GetEditTimesheetsView (Num 7), GetEmployeeID,
               SaveTimesheet True
                 \<lparr>dto_TimeID = Some (Num 7), dto_EmpID = Some ''EMP1'',
                  dto_ClientID = Some ''SSW'', dto_ProjectID = Some ''PRJ1'',
                  dto_CategoryID = Some ''DEV'', dto_LocationID = Some ''OFFICE'',
                  dto_BillableID = Some ''B'', dto_DateCreated = ''2024-03-05'',
                  dto_TimeStart = ''2024-03-05T09:00:00'',
                  dto_TimeEnd = ''2024-03-05T18:00:00'', dto_TimeLess = Num 1,
                  dto_TimeTotal = Num 9, dto_TimeBillable = Num 8,
                  dto_SellPrice = Some (Num 250), dto_SalesTaxPct = one_tenth,
                  dto_Notes = Some ''design review''\<rparr>]\<rparr>) \<and>
   TimeTotal short_record = Some (Num (3602879701896397 / 18014398509481984)) \<and>
   update_timesheet (example_env\<lparr>as_details := \<lambda>text. short_record\<rparr>)
     (no_args\<lparr>arg_timesheet_id := Some (Num 7)\<rparr>) fresh_world =
     (Inr (UpdateSuccess (Num 7)),
      \<lparr>employeeId = Some (Some ''EMP1''),
       sent = [GetEditTimesheetsView (Num 7), GetEmployeeID,
               SaveTimesheet True
                 \<lparr>dto_TimeID = Some (Num 7), dto_EmpID = Some ''EMP1'',
                  dto_ClientID = Some ''SSW'', dto_ProjectID = Some ''PRJ1'',
                  dto_CategoryID = Some ''DEV'', dto_LocationID = Some ''OFFICE'',
                  dto_BillableID = Some ''B'', dto_DateCreated = ''2024-03-05'',
                  dto_TimeStart = ''2024-03-05T09:00:00'',
                  dto_TimeEnd = ''2024-03-05T09:12:00'',
                  dto_TimeLess = Num (6004799503160661 / 36028797018963968),
                  dto_TimeTotal = Num (7205759403792793 / 36028797018963968),
                  dto_TimeBillable = Num (4803839602528529 / 144115188075855872),
                  dto_SellPrice = Some (Num 250), dto_SalesTaxPct = one_tenth,
                  dto_Notes = Some ''design review''\<rparr>]\<rparr>)"
  by (simp add: example_defs overridden_record_def short_record_def run_defs short_doubles)

section \<open>The sell price\<close>

text \<open>
  Claim C6. Whatever its arguments and outcome, \<open>update_timesheet\<close> sends no rate
  lookup; when it gets as far as submitting, the sell price it submits is the one of the
  existing record. \<open>create_timesheet\<close>, when it gets as far as submitting, has sent
  the rate lookup for the client and submits the rate it returned.
\<close>

theorem update_timesheet_keeps_sell_price:
  "filter is_rate_lookup (sent (snd (update_timesheet E args w))) =
     filter is_rate_lookup (sent w) \<and>
   (arg_timesheet_id args = Some (Num t) \<and> t \<noteq> 0 \<and>
    getTimesheet E (Num t) w = (Inr existing, w') \<and>
    DateCreated existing = Some d \<and> StartTime existing = Some st \<and>
    EndTime existing = Some et \<and> getEmployeeId E w' = (Inr empId, w'') \<longrightarrow>
    (\<exists>dto. sent (snd (update_timesheet E args w)) = sent w'' @ [SaveTimesheet True dto] \<and>
           dto_SellPrice dto = SellPrice existing)) \<and>
   (clientId \<noteq> [] \<and> projectId \<noteq> [] \<and> categoryId \<noteq> [] \<and> date \<noteq> [] \<and>
    startTime \<noteq> [] \<and> endTime \<noteq> [] \<and> locationId \<noteq> [] \<and>
    getEmployeeId E v = (Inr empId', v') \<and>
    \<not> js_le (hrs_billable (calculateHours (Number E) startTime endTime
                 (Some (or_num breakArg (Num 0))))) (Num 0) \<and>
    getClientRate E clientId v' = (Inr rateInfo, v'') \<longrightarrow>
    (\<exists>dto. sent (snd (create_timesheet E
             \<lparr>arg_timesheet_id = tid, arg_client_id = Some clientId,
              arg_project_id = Some projectId, arg_category_id = Some categoryId,
              arg_date = Some date, arg_start_time = Some startTime,
              arg_end_time = Some endTime, arg_break_minutes = breakArg,
              arg_location_id = Some locationId, arg_billable_id = billableId,
              arg_note = noteArg\<rparr> v)) =
             sent v' @ [GetClientRate empId' clientId, SaveTimesheet False dto] \<and>
           dto_SellPrice dto = Rate rateInfo))"
proof (intro conjI impI)
  show "filter is_rate_lookup (sent (snd (update_timesheet E args w))) =
     filter is_rate_lookup (sent w)"
    by (rule update_timesheet_no_rate)
next
  assume a: "arg_timesheet_id args = Some (Num t) \<and> t \<noteq> 0 \<and>
    getTimesheet E (Num t) w = (Inr existing, w') \<and>
    DateCreated existing = Some d \<and> StartTime existing = Some st \<and>
    EndTime existing = Some et \<and> getEmployeeId E w' = (Inr empId, w'')"
  then obtain m where
    s: "sent (snd (update_timesheet E args w)) =
           sent w'' @ [SaveTimesheet True (update_dto E (Num t) empId existing m)]"
    using update_timesheet_submits [of args t E w existing w' d st et empId w''] by blast
  show "\<exists>dto. sent (snd (update_timesheet E args w)) = sent w'' @ [SaveTimesheet True dto] \<and>
           dto_SellPrice dto = SellPrice existing"
    by (rule exI [of _ "update_dto E (Num t) empId existing m"])
       (simp add: s update_dto_def Let_def)
next
  assume a: "clientId \<noteq> [] \<and> projectId \<noteq> [] \<and> categoryId \<noteq> [] \<and> date \<noteq> [] \<and>
    startTime \<noteq> [] \<and> endTime \<noteq> [] \<and> locationId \<noteq> [] \<and>
    getEmployeeId E v = (Inr empId', v') \<and>
    \<not> js_le (hrs_billable (calculateHours (Number E) startTime endTime
                 (Some (or_num breakArg (Num 0))))) (Num 0) \<and>
    getClientRate E clientId v' = (Inr rateInfo, v'')"
  then have c: "employeeId v' = Some empId'"
    by (blast dest: getEmployeeId_caches)
  have r: "sent v'' = sent v' @ [GetClientRate empId' clientId]"
    using getClientRate_cached [OF c, of E clientId] a by simp
  show "\<exists>dto. sent (snd (create_timesheet E
             \<lparr>arg_timesheet_id = tid, arg_client_id = Some clientId,
              arg_project_id = Some projectId, arg_category_id = Some categoryId,
              arg_date = Some date, arg_start_time = Some startTime,
              arg_end_time = Some endTime, arg_break_minutes = breakArg,
              arg_location_id = Some locationId, arg_billable_id = billableId,
              arg_note = noteArg\<rparr> v)) =
             sent v' @ [GetClientRate empId' clientId, SaveTimesheet False dto] \<and>
           dto_SellPrice dto = Rate rateInfo"
    using a r
    by (simp add: create_timesheet_def createTimesheet_def fetch_world snd_propagate
          create_dto_def Let_def)
qed

theorem update_timesheet_keeps_sell_price_witness:
  "filter is_rate_lookup
     (sent (snd (update_timesheet example_env (no_args\<lparr>arg_timesheet_id := Some (Num 7)\<rparr>)
                   fresh_world))) = [] \<and>
   (\<exists>dto. sent (snd (update_timesheet example_env (no_args\<lparr>arg_timesheet_id := Some (Num 7)\<rparr>)
                   fresh_world)) =
            [GetEditTimesheetsView (Num 7), GetEmployeeID, SaveTimesheet True dto] \<and>
          dto_SellPrice dto = Some (Num 250)) \<and>
   (\<exists>dto. sent (snd (create_timesheet example_env (create_args ''09:00'' ''18:00'' (Num 60))
                   fresh_world)) =
            [GetEmployeeID, GetClientRate (Some ''EMP1'') ''SSW'', SaveTimesheet False dto] \<and>
          dto_SellPrice dto = Some (Num 250))"
  using update_timesheet_keeps_sell_price
          [where E = example_env and args = "no_args\<lparr>arg_timesheet_id := Some (Num 7)\<rparr>"
             and w = fresh_world and t = 7 and existing = example_record
             and w' = "\<lparr>employeeId = None, sent = [GetEditTimesheetsView (Num 7)]\<rparr>"
             and d = "''2024-03-05T00:00:00''" and st = "''09:00:00''" and et = "''18:00:00''"
             and empId = "Some ''EMP1''"
             and w'' = "\<lparr>employeeId = Some (Some ''EMP1''),
                   sent = [GetEditTimesheetsView (Num 7), GetEmployeeID]\<rparr>"
             and clientId = "''SSW''" and projectId = "''PRJ1''" and categoryId = "''DEV''"
             and date = "''2024-03-05''" and startTime = "''09:00''" and endTime = "''18:00''"
             and locationId = "''OFFICE''" and v = fresh_world and empId' = "Some ''EMP1''"
             and v' = "\<lparr>employeeId = Some (Some ''EMP1''), sent = [GetEmployeeID]\<rparr>"
             and breakArg = "Some (Num 60)" and rateInfo = "\<lparr>Rate = Some (Num 250)\<rparr>"
             and v'' = "\<lparr>employeeId = Some (Some ''EMP1''),
                   sent = [GetEmployeeID, GetClientRate (Some ''EMP1'') ''SSW'']\<rparr>"
             and tid = None and billableId = None and noteArg = None]
        example_getTimesheet example_getEmployeeId_after example_getEmployeeId
        example_getClientRate
  by (simp add: example_record_fields no_args_def create_args_def fresh_world_def
        calculateHours_def elem_def or_num_def Let_def example_env_def Number_dec_def
        is_digit_def dec_value_def round_simps)

section \<open>Rejected requests\<close>

lemma stops_append:
  "stops_at_rejection E hist xs \<Longrightarrow>
   (xs \<noteq> [] \<Longrightarrow> \<not> rejected (respond E (hist @ butlast xs) (last xs))) \<Longrightarrow>
   stops_at_rejection E (hist @ xs) ys \<Longrightarrow>
   stops_at_rejection E hist (xs @ ys)"
proof (induction xs arbitrary: hist)
  case Nil
  then show ?case by simp
next
  case (Cons x xs)
  show ?case
  proof (cases "xs = []")
    case True
    with Cons.prems show ?thesis by simp
  next
    case False
    have nr: "\<not> rejected (respond E hist x)"
      using Cons.prems(1) False by auto
    have "stops_at_rejection E (hist @ [x]) (xs @ ys)"
    proof (rule Cons.IH)
      show "stops_at_rejection E (hist @ [x]) xs" using Cons.prems(1) by simp
      show "\<not> rejected (respond E ((hist @ [x]) @ butlast xs) (last xs))" if "xs \<noteq> []"
        using Cons.prems(2) that by simp
      show "stops_at_rejection E ((hist @ [x]) @ xs) ys" using Cons.prems(3) by simp
    qed
    with nr show ?thesis by simp
  qed
qed

lemma traced_return: "sent w' = sent w \<Longrightarrow> traced E w (x, w')"
  by (simp add: traced_def)

lemma traced_Inl: "traced E w (Inl e, w1) \<Longrightarrow> traced E w (Inl e, w1)"
  by (simp add: traced_def)

lemma traced_fetch: "traced E w (fetch E v e req w)"
  unfolding traced_def
  by (rule exI [of _ "[req]"])
     (auto simp: fetch_world fetch_def Let_def rejected_def split: sum.splits option.splits)

lemma traced_success_then:
  assumes "traced E w (Inr a, w1)" and "traced E w1 out"
  shows "traced E w out"
proof -
  from assms(1) obtain xs where xs: "sent w1 = sent w @ xs" "stops_at_rejection E (sent w) xs"
    and lx: "\<forall>r. xs \<noteq> [] \<and> respond E (sent w @ butlast xs) (last xs) = Inr r \<longrightarrow> ok r"
    by (auto simp: traced_def)
  from assms(2) obtain ys where ys: "sent (snd out) = sent w1 @ ys"
    "stops_at_rejection E (sent w1) ys"
    and ly: "\<forall>r. ys \<noteq> [] \<and> respond E (sent w1 @ butlast ys) (last ys) = Inr r \<longrightarrow>
                  ok r \<or> fst out = Inl (Error (api_error E r))"
    by (auto simp: traced_def)
  have nr: "xs \<noteq> [] \<Longrightarrow> \<not> rejected (respond E (sent w @ butlast xs) (last xs))"
    using lx by (auto simp: rejected_def split: sum.splits)
  have st: "stops_at_rejection E (sent w) (xs @ ys)"
    using xs(2) nr ys(2) unfolding xs(1) by (rule stops_append)
  have se: "sent (snd out) = sent w @ (xs @ ys)"
    using xs(1) ys(1) by simp
  have la: "\<forall>r. xs @ ys \<noteq> [] \<and>
      respond E (sent w @ butlast (xs @ ys)) (last (xs @ ys)) = Inr r \<longrightarrow>
         ok r \<or> fst out = Inl (Error (api_error E r))"
  proof (cases "ys = []")
    case True
    then show ?thesis using lx by auto
  next
    case False
    then show ?thesis using ly xs(1) by (simp add: butlast_append)
  qed
  show ?thesis
    unfolding traced_def using se st la by blast
qed

lemma traced_bind:
  assumes "traced E w op"
    and "\<And>a w1. op = (Inr a, w1) \<Longrightarrow> traced E w1 (k a w1)"
  shows "traced E w (case op of (Inl e, w1) \<Rightarrow> (Inl e, w1) | (Inr a, w1) \<Rightarrow> k a w1)"
proof (cases op)
  case (Pair r w1)
  show ?thesis
  proof (cases r)
    case (Inl e)
    with Pair assms(1) show ?thesis by (simp add: traced_Inl)
  next
    case (Inr a)
    with Pair assms show ?thesis by (auto intro: traced_success_then)
  qed
qed

lemma traced_getEmployeeId: "traced E w (getEmployeeId E w)"
proof (cases "employeeId w")
  case None
  have "traced E w (case fetch E (as_employee E) \<lparr>EmpID = None\<rparr> GetEmployeeID w of
             (Inl e, w') \<Rightarrow> (Inl e, w')
           | (Inr response, w') \<Rightarrow>
               (Inr (EmpID response), w'\<lparr>employeeId := Some (EmpID response)\<rparr>))"
    by (rule traced_bind [OF traced_fetch]) (simp add: traced_return)
  with None show ?thesis by (simp add: getEmployeeId_def)
next
  case (Some v)
  then show ?thesis by (simp add: getEmployeeId_def traced_return)
qed

lemma traced_getClientRate: "traced E w (getClientRate E clientId w)"
  unfolding getClientRate_def
  by (rule traced_bind [OF traced_getEmployeeId]) (rule traced_fetch)

lemma traced_create_timesheet: "traced E w (create_timesheet E args w)"
proof -
  have body: "traced E w
     (case getEmployeeId E w of
        (Inl e, w1) \<Rightarrow> (Inl e, w1)
      | (Inr empId, w1) \<Rightarrow>
          (let h = calculateHours (Number E) startTime endTime (Some breakMinutes) in
           if js_le (hrs_billable h) (Num 0)
           then (Inl (McpError InvalidParams
                   (invalid_range_message E breakMinutes startTime endTime (hrs_total h))), w1)
           else
             (case getClientRate E clientId w1 of
                (Inl e, w2) \<Rightarrow> (Inl e, w2)
              | (Inr rateInfo, w2) \<Rightarrow>
                  (case createTimesheet E
                          (create_dto empId clientId projectId categoryId locationId
                             billableId date startTime endTime breakMinutes h
                             (Rate rateInfo) noteArg) w2 of
                     (Inl e, w3) \<Rightarrow> (Inl e, w3)
                   | (Inr result, w3) \<Rightarrow>
                       (Inr (CreateSuccess (TimesheetID result) (ClientName result)
                               (ProjectID result) (DateCreated result)
                               (TimeBillable result)), w3)))))"
    for startTime endTime breakMinutes clientId projectId categoryId locationId billableId
      date noteArg
    apply (rule traced_bind [OF traced_getEmployeeId])
    apply (simp add: Let_def traced_return)
    apply (intro impI)
    apply (rule traced_bind [OF traced_getClientRate])
    apply (rule traced_bind)
     apply (simp add: createTimesheet_def traced_fetch)
    apply (simp add: traced_return)
    done
  show ?thesis
    unfolding create_timesheet_def Let_def
    by (auto simp: traced_return body [unfolded Let_def] split: option.splits)
qed

lemma traced_update_timesheet: "traced E w (update_timesheet E args w)"
proof (cases "truthy_num (arg_timesheet_id args)")
  case False
  then show ?thesis by (simp add: update_timesheet_def traced_return)
next
  case True
  have "traced E w
     (case getTimesheet E timesheetId w of
           (Inl e, w1) \<Rightarrow> (Inl e, w1)
         | (Inr existing, w1) \<Rightarrow>
             (case merge_overrides E args existing of
                Inl e \<Rightarrow> (Inl e, w1)
              | Inr m \<Rightarrow>
                  (case getEmployeeId E w1 of
                     (Inl e, w2) \<Rightarrow> (Inl e, w2)
                   | (Inr empId, w2) \<Rightarrow>
                       (case updateTimesheet E (update_dto E timesheetId empId existing m) w2 of
                          (Inl e, w3) \<Rightarrow> (Inl e, w3)
                        | (Inr u, w3) \<Rightarrow> (Inr (UpdateSuccess timesheetId), w3)))))"
    for timesheetId
    apply (rule traced_bind)
     apply (simp add: getTimesheet_def traced_fetch)
    apply (simp add: traced_return split: sum.splits)
    apply (intro allI impI)
    apply (rule traced_bind [OF traced_getEmployeeId])
    apply (rule traced_bind)
     apply (simp add: updateTimesheet_def traced_fetch)
    apply (simp add: traced_return)
    done
  with True show ?thesis by (simp add: update_timesheet_def Let_def)
qed


lemma catch_block_world: "snd (catch_block x) = snd x"
  by (cases x) (auto simp: catch_block_def split: sum.splits js_error.splits)

lemma catch_block_Error:
  "fst x = Inl (Error m) \<Longrightarrow> fst (catch_block x) = Inr \<lparr>content = Failure m, isError = True\<rparr>"
  by (cases x) (auto simp: catch_block_def)

lemma traced_handler:
  "traced E w (case name of
          CreateTimesheet \<Rightarrow> create_timesheet E args w
        | UpdateTimesheet \<Rightarrow> update_timesheet E args w)"
  by (cases name) (simp_all add: traced_create_timesheet traced_update_timesheet)

text \<open>
  Claim C8. A response with a status outside 200..299 makes \<open>fetch\<close> throw the error
  whose message holds the status and the body text (the status text when the body is
  empty), after that one request; a response with a status in 200..299 and an empty body
  makes it return the empty object. In a tool call the requests stop at a rejected
  reply, and when the last request was rejected the call returns (it does not throw) the
  result with \<open>isError\<close> and that message.
\<close>

theorem non_2xx_becomes_failed_result:
  "(respond E (sent w) req = Inr r \<and> \<not> ok r \<longrightarrow>
      fetch E as_T empty_object req w =
        (Inl (Error (''TimePRO API error ('' @ String_of E (Num (of_nat (status r))) @ ''): '' @
                     (if body r \<noteq> [] then body r else statusText r))),
         w\<lparr>sent := sent w @ [req]\<rparr>)) \<and>
   (respond E (sent w) req = Inr r \<and> ok r \<and> body r = [] \<longrightarrow>
      fetch E as_T empty_object req w = (Inr empty_object, w\<lparr>sent := sent w @ [req]\<rparr>)) \<and>
   (\<exists>reqs. sent (snd (call_tool E name args w)) = sent w @ reqs \<and>
           stops_at_rejection E (sent w) reqs \<and>
           (\<forall>r'. reqs \<noteq> [] \<and> respond E (sent w @ butlast reqs) (last reqs) = Inr r' \<and>
                 \<not> ok r' \<longrightarrow>
                 fst (call_tool E name args w) =
                   Inr \<lparr>content = Failure (api_error E r'), isError = True\<rparr>))"
proof (intro conjI impI)
  assume "respond E (sent w) req = Inr r \<and> \<not> ok r"
  then show "fetch E as_T empty_object req w =
        (Inl (Error (''TimePRO API error ('' @ String_of E (Num (of_nat (status r))) @ ''): '' @
                     (if body r \<noteq> [] then body r else statusText r))),
         w\<lparr>sent := sent w @ [req]\<rparr>)"
    by (simp add: fetch_def api_error_def Let_def)
next
  assume "respond E (sent w) req = Inr r \<and> ok r \<and> body r = []"
  then show "fetch E as_T empty_object req w = (Inr empty_object, w\<lparr>sent := sent w @ [req]\<rparr>)"
    by (simp add: fetch_def Let_def)
next
  let ?h = "case name of
          CreateTimesheet \<Rightarrow> create_timesheet E args w
        | UpdateTimesheet \<Rightarrow> update_timesheet E args w"
  from traced_handler [where E = E and w = w and name = name and args = args]
  obtain reqs where a: "sent (snd ?h) = sent w @ reqs" "stops_at_rejection E (sent w) reqs"
    and b: "\<forall>r. reqs \<noteq> [] \<and> respond E (sent w @ butlast reqs) (last reqs) = Inr r \<longrightarrow>
                  ok r \<or> fst ?h = Inl (Error (api_error E r))"
    unfolding traced_def by blast
  have c: "call_tool E name args w = catch_block ?h"
    by (simp add: call_tool_def)
  show "\<exists>reqs. sent (snd (call_tool E name args w)) = sent w @ reqs \<and>
           stops_at_rejection E (sent w) reqs \<and>
           (\<forall>r'. reqs \<noteq> [] \<and> respond E (sent w @ butlast reqs) (last reqs) = Inr r' \<and>
                 \<not> ok r' \<longrightarrow>
                 fst (call_tool E name args w) =
                   Inr \<lparr>content = Failure (api_error E r'), isError = True\<rparr>)"
    unfolding c
    by (rule exI [of _ reqs]) (use a b in \<open>auto simp: catch_block_world catch_block_Error\<close>)
qed

lemma rejecting_run:
  "call_tool (example_env\<lparr>respond := rejecting_respond\<rparr>) CreateTimesheet
     (create_args ''09:00'' ''18:00'' (Num 60)) fresh_world =
     (Inr \<lparr>content = Failure ''TimePRO API error (500): boom'', isError = True\<rparr>,
      \<lparr>employeeId = Some (Some ''EMP1''),
       sent = [GetEmployeeID, GetClientRate (Some ''EMP1'') ''SSW'',
               SaveTimesheet False example_dto]\<rparr>)"
  by (simp add: call_tool_def catch_block_def example_defs rejecting_respond_def run_defs
        example_dto_def show_nat.simps)

theorem non_2xx_becomes_failed_result_witness:
  "fetch (example_env\<lparr>respond := rejecting_respond\<rparr>) (as_details example_env) empty_details
     (SaveTimesheet False example_dto) fresh_world =
     (Inl (Error ''TimePRO API error (500): boom''),
      \<lparr>employeeId = None, sent = [SaveTimesheet False example_dto]\<rparr>) \<and>
   fetch example_env (\<lambda>text. ()) () (SaveTimesheet True example_dto) fresh_world =
     (Inr (), \<lparr>employeeId = None, sent = [SaveTimesheet True example_dto]\<rparr>) \<and>
   call_tool (example_env\<lparr>respond := rejecting_respond\<rparr>) CreateTimesheet
     (create_args ''09:00'' ''18:00'' (Num 60)) fresh_world =
     (Inr \<lparr>content = Failure ''TimePRO API error (500): boom'', isError = True\<rparr>,
      \<lparr>employeeId = Some (Some ''EMP1''),
       sent = [GetEmployeeID, GetClientRate (Some ''EMP1'') ''SSW'',
               SaveTimesheet False example_dto]\<rparr>)"
  using non_2xx_becomes_failed_result
          [where E = "example_env\<lparr>respond := rejecting_respond\<rparr>" and w = fresh_world
             and req = "SaveTimesheet False example_dto"
             and r = "\<lparr>status = 500, statusText = ''Internal Server Error'', body = ''boom''\<rparr>"
             and as_T = "as_details example_env" and empty_object = empty_details
             and name = CreateTimesheet and args = "create_args ''09:00'' ''18:00'' (Num 60)"]
        non_2xx_becomes_failed_result
          [where E = example_env and w = fresh_world
             and req = "SaveTimesheet True example_dto"
             and r = "\<lparr>status = 200, statusText = ''OK'', body = []\<rparr>"
             and as_T = "\<lambda>text. ()" and empty_object = "()"
             and name = CreateTimesheet and args = "create_args ''09:00'' ''18:00'' (Num 60)"]
        rejecting_run
  by (simp add: example_env_def example_respond_def rejecting_respond_def fresh_world_def
        ok_def show_nat.simps)

section \<open>The cached employee id\<close>

lemma kept_return: "employeeId w' = Some v \<Longrightarrow> sent w' = sent w \<Longrightarrow> cache_kept v w (x, w')"
  by (simp add: cache_kept_def)

lemma kept_fetch:
  "employeeId w = Some v \<Longrightarrow> \<not> is_identity_lookup req \<Longrightarrow> cache_kept v w (fetch E f e req w)"
  by (simp add: cache_kept_def fetch_world)

lemma kept_bind:
  assumes "cache_kept v w op"
    and "\<And>a w1. op = (Inr a, w1) \<Longrightarrow> employeeId w1 = Some v \<Longrightarrow> cache_kept v w1 (k a w1)"
  shows "cache_kept v w (case op of (Inl e, w1) \<Rightarrow> (Inl e, w1) | (Inr a, w1) \<Rightarrow> k a w1)"
proof (cases op)
  case (Pair r w1)
  show ?thesis
  proof (cases r)
    case (Inl e)
    with Pair assms(1) show ?thesis by (simp add: cache_kept_def)
  next
    case (Inr a)
    with Pair assms(1) have c: "employeeId w1 = Some v" by (simp add: cache_kept_def)
    from assms(2) [of a w1] Pair Inr c have "cache_kept v w1 (k a w1)" by simp
    with Pair Inr assms(1) show ?thesis by (simp add: cache_kept_def)
  qed
qed

lemma kept_getEmployeeId: "employeeId w = Some v \<Longrightarrow> cache_kept v w (getEmployeeId E w)"
  by (simp add: getEmployeeId_def cache_kept_def)

lemma kept_getClientRate: "employeeId w = Some v \<Longrightarrow> cache_kept v w (getClientRate E clientId w)"
  unfolding getClientRate_def
  by (rule kept_bind [OF kept_getEmployeeId]) (simp_all add: kept_fetch)

lemma kept_create_timesheet:
  assumes "employeeId w = Some v"
  shows "cache_kept v w (create_timesheet E args w)"
proof -
  have body: "cache_kept v w
     (case getEmployeeId E w of
        (Inl e, w1) \<Rightarrow> (Inl e, w1)
      | (Inr empId, w1) \<Rightarrow>
          (let h = calculateHours (Number E) startTime endTime (Some breakMinutes) in
           if js_le (hrs_billable h) (Num 0)
           then (Inl (McpError InvalidParams
                   (invalid_range_message E breakMinutes startTime endTime (hrs_total h))), w1)
           else
             (case getClientRate E clientId w1 of
                (Inl e, w2) \<Rightarrow> (Inl e, w2)
              | (Inr rateInfo, w2) \<Rightarrow>
                  (case createTimesheet E
                          (create_dto empId clientId projectId categoryId locationId
                             billableId date startTime endTime breakMinutes h
                             (Rate rateInfo) noteArg) w2 of
                     (Inl e, w3) \<Rightarrow> (Inl e, w3)
                   | (Inr result, w3) \<Rightarrow>
                       (Inr (CreateSuccess (TimesheetID result) (ClientName result)
                               (ProjectID result) (DateCreated result)
                               (TimeBillable result)), w3)))))"
    for startTime endTime breakMinutes clientId projectId categoryId locationId billableId
      date noteArg
    apply (rule kept_bind [OF kept_getEmployeeId [OF assms]])
    apply (simp add: Let_def kept_return)
    apply (intro impI)
    apply (rule kept_bind [OF kept_getClientRate])
     apply assumption
    apply (rule kept_bind)
     apply (simp add: createTimesheet_def kept_fetch)
    apply (simp add: kept_return)
    done
  show ?thesis
    unfolding create_timesheet_def Let_def
    using assms
    by (auto simp: kept_return body [unfolded Let_def] split: option.splits)
qed

lemma kept_update_timesheet:
  assumes "employeeId w = Some v"
  shows "cache_kept v w (update_timesheet E args w)"
proof (cases "truthy_num (arg_timesheet_id args)")
  case False
  then show ?thesis using assms by (simp add: update_timesheet_def kept_return)
next
  case True
  have "cache_kept v w
     (case getTimesheet E timesheetId w of
           (Inl e, w1) \<Rightarrow> (Inl e, w1)
         | (Inr existing, w1) \<Rightarrow>
             (case merge_overrides E args existing of
                Inl e \<Rightarrow> (Inl e, w1)
              | Inr m \<Rightarrow>
                  (case getEmployeeId E w1 of
                     (Inl e, w2) \<Rightarrow> (Inl e, w2)
                   | (Inr empId, w2) \<Rightarrow>
                       (case updateTimesheet E (update_dto E timesheetId empId existing m) w2 of
                          (Inl e, w3) \<Rightarrow> (Inl e, w3)
                        | (Inr u, w3) \<Rightarrow> (Inr (UpdateSuccess timesheetId), w3)))))"
    for timesheetId
    apply (rule kept_bind)
     apply (simp add: getTimesheet_def kept_fetch assms)
    apply (simp add: kept_return split: sum.splits)
    apply (intro allI impI)
    apply (rule kept_bind [OF kept_getEmployeeId])
     apply assumption
    apply (rule kept_bind)
     apply (simp add: updateTimesheet_def kept_fetch)
    apply (simp add: kept_return)
    done
  with True show ?thesis by (simp add: update_timesheet_def Let_def)
qed

lemma call_tool_cached:
  assumes "employeeId w = Some v"
  shows "employeeId (snd (call_tool E name args w)) = Some v \<and>
         filter is_identity_lookup (sent (snd (call_tool E name args w))) =
           filter is_identity_lookup (sent w)"
  using kept_create_timesheet [OF assms, of E args] kept_update_timesheet [OF assms, of E args]
  by (cases name) (simp_all add: call_tool_def catch_block_world cache_kept_def)

lemma run_calls_cached:
  "employeeId w = Some v \<Longrightarrow>
   employeeId (run_calls E calls w) = Some v \<and>
   filter is_identity_lookup (sent (run_calls E calls w)) = filter is_identity_lookup (sent w)"
proof (induction calls arbitrary: w)
  case Nil
  then show ?case by simp
next
  case (Cons call calls)
  obtain name args where call: "call = (name, args)" by (cases call)
  from call_tool_cached [OF Cons.prems, of E name args]
  have c: "employeeId (snd (call_tool E name args w)) = Some v"
    and f: "filter is_identity_lookup (sent (snd (call_tool E name args w))) =
           filter is_identity_lookup (sent w)"
    by simp_all
  from Cons.IH [OF c] f call show ?case by simp
qed


text \<open>
  Claim C9, amended. A call of \<open>getEmployeeId\<close> with nothing cached that succeeds
  has sent one identity request and cached the result. With a value cached,
  \<open>getEmployeeId\<close> returns it without a request, and any sequence of tool calls
  keeps it cached and sends no identity request. A call with nothing cached that fails
  has sent one identity request and cached nothing, and the next call sends the request
  again.
\<close>

theorem employee_id_cached_after_success:
  "(employeeId w = None \<and> getEmployeeId E w = (Inr v, w') \<longrightarrow>
      sent w' = sent w @ [GetEmployeeID] \<and> employeeId w' = Some v) \<and>
   (employeeId w = Some v \<longrightarrow>
      getEmployeeId E w = (Inr v, w) \<and>
      employeeId (run_calls E calls w) = Some v \<and>
      filter is_identity_lookup (sent (run_calls E calls w)) =
        filter is_identity_lookup (sent w)) \<and>
   (employeeId w = None \<and> getEmployeeId E w = (Inl err, u) \<longrightarrow>
      sent u = sent w @ [GetEmployeeID] \<and> employeeId u = None \<and>
      sent (snd (getEmployeeId E u)) = sent w @ [GetEmployeeID, GetEmployeeID])"
proof (intro conjI impI)
  assume a: "employeeId w = None \<and> getEmployeeId E w = (Inr v, w')"
  then show "sent w' = sent w @ [GetEmployeeID]"
    by (auto simp: getEmployeeId_def fetch_def Let_def
             split: sum.splits option.splits if_splits prod.splits)
  from a show "employeeId w' = Some v"
    by (blast dest: getEmployeeId_caches)
next
  assume a: "employeeId w = Some v"
  then show "getEmployeeId E w = (Inr v, w)"
    by (simp add: getEmployeeId_def)
  from run_calls_cached [OF a]
  show "employeeId (run_calls E calls w) = Some v"
    and "filter is_identity_lookup (sent (run_calls E calls w)) =
        filter is_identity_lookup (sent w)"
    by simp_all
next
  assume a: "employeeId w = None \<and> getEmployeeId E w = (Inl err, u)"
  then have "u = snd (fetch E (as_employee E) \<lparr>EmpID = None\<rparr> GetEmployeeID w)"
    by (auto simp: getEmployeeId_def split: sum.splits prod.splits)
  then have u: "u = w\<lparr>sent := sent w @ [GetEmployeeID]\<rparr>"
    by (simp only: fetch_world)
  from u show "sent u = sent w @ [GetEmployeeID]" by simp
  from u a show n: "employeeId u = None" by simp
  have "snd (getEmployeeId E u) =
          snd (fetch E (as_employee E) \<lparr>EmpID = None\<rparr> GetEmployeeID u) \<or>
        (\<exists>x. snd (getEmployeeId E u) =
          (snd (fetch E (as_employee E) \<lparr>EmpID = None\<rparr> GetEmployeeID u))\<lparr>employeeId := x\<rparr>)"
    using n by (auto simp: getEmployeeId_def split: sum.splits prod.splits)
  then show "sent (snd (getEmployeeId E u)) = sent w @ [GetEmployeeID, GetEmployeeID]"
    unfolding fetch_world using u by auto
qed

theorem employee_id_cached_after_success_witness:
  "getEmployeeId example_env fresh_world =
     (Inr (Some ''EMP1''), \<lparr>employeeId = Some (Some ''EMP1''), sent = [GetEmployeeID]\<rparr>) \<and>
   getEmployeeId example_env \<lparr>employeeId = Some (Some ''EMP1''), sent = [GetEmployeeID]\<rparr> =
     (Inr (Some ''EMP1''), \<lparr>employeeId = Some (Some ''EMP1''), sent = [GetEmployeeID]\<rparr>) \<and>
   filter is_identity_lookup
     (sent (run_calls example_env
              [(CreateTimesheet, create_args ''09:00'' ''18:00'' (Num 60)),
               (UpdateTimesheet, no_args\<lparr>arg_timesheet_id := Some (Num 7)\<rparr>)]
              \<lparr>employeeId = Some (Some ''EMP1''), sent = [GetEmployeeID]\<rparr>)) =
     [GetEmployeeID] \<and>
   sent (snd (getEmployeeId (example_env\<lparr>respond := unavailable_respond\<rparr>)
                \<lparr>employeeId = None, sent = [GetEmployeeID]\<rparr>)) =
     [GetEmployeeID, GetEmployeeID]"
proof -
  let ?w1 = "\<lparr>employeeId = Some (Some ''EMP1''), sent = [GetEmployeeID]\<rparr>"
  let ?u = "\<lparr>employeeId = None, sent = [GetEmployeeID]\<rparr>"
  let ?calls = "[(CreateTimesheet, create_args ''09:00'' ''18:00'' (Num 60)),
               (UpdateTimesheet, no_args\<lparr>arg_timesheet_id := Some (Num 7)\<rparr>)]"
  have a: "employeeId fresh_world = None" by (simp add: fresh_world_def)
  have c: "employeeId ?w1 = Some (Some ''EMP1'')" by simp
  from employee_id_cached_after_success
         [where E = example_env and w = fresh_world and v = "Some ''EMP1''" and w' = ?w1]
       a example_getEmployeeId
  have p1: "sent ?w1 = sent fresh_world @ [GetEmployeeID]" by blast
  from employee_id_cached_after_success
         [where E = example_env and w = ?w1 and v = "Some ''EMP1''" and calls = ?calls] c
  have p2: "getEmployeeId example_env ?w1 = (Inr (Some ''EMP1''), ?w1)"
    and p3: "filter is_identity_lookup (sent (run_calls example_env ?calls ?w1)) =
             filter is_identity_lookup (sent ?w1)"
    by blast+
  have p4: "filter is_identity_lookup (sent ?w1) = [GetEmployeeID]" by simp
  from employee_id_cached_after_success
         [where E = "example_env\<lparr>respond := unavailable_respond\<rparr>" and w = fresh_world
            and err = "Error ''TimePRO API error (503): Service Unavailable''" and u = ?u]
       a unavailable_getEmployeeId
  have "sent (snd (getEmployeeId (example_env\<lparr>respond := unavailable_respond\<rparr>) ?u)) =
          sent fresh_world @ [GetEmployeeID, GetEmployeeID]"
    by blast
  then have p5: "sent (snd (getEmployeeId (example_env\<lparr>respond := unavailable_respond\<rparr>) ?u)) =
          [GetEmployeeID, GetEmployeeID]"
    by (simp add: fresh_world_def)
  show ?thesis
    using example_getEmployeeId p1 p2 p3 [unfolded p4] p5 by blast
qed

text \<open>
  The claim as stated fails when the lookup fails: nothing is cached, and the second
  call sends the identity request again.
\<close>

theorem employee_id_lookup_counterexample:
  "getEmployeeId (example_env\<lparr>respond := unavailable_respond\<rparr>) fresh_world =
     (Inl (Error ''TimePRO API error (503): Service Unavailable''),
      \<lparr>employeeId = None, sent = [GetEmployeeID]\<rparr>) \<and>
   getEmployeeId (example_env\<lparr>respond := unavailable_respond\<rparr>)
     \<lparr>employeeId = None, sent = [GetEmployeeID]\<rparr> =
     (Inl (Error ''TimePRO API error (503): Service Unavailable''),
      \<lparr>employeeId = None, sent = [GetEmployeeID, GetEmployeeID]\<rparr>)"
  by (simp add: example_env_def unavailable_respond_def fresh_world_def getEmployeeId_def
        fetch_def ok_def api_error_def Let_def show_nat.simps)

end
